theory Spec2Isabelle
  imports Main "HOL-Library.Sublist"
begin

section \<open>Package gcp: retrieving and rendering the scan results\<close>

type_synonym bytes = string

text \<open>
  The anonymous struct that \<^verbatim>\<open>getScanResults\<close> decodes the artifact into:
  \<^verbatim>\<open>results.Results[i].Vulnerabilities[j]\<close> with seven string fields.
\<close>

record json_Vulnerability =
  VulnerabilityID :: string
  PkgName :: string
  InstalledVersion :: string
  FixedVersion :: string
  Severity :: string
  Title :: string
  Description :: string

record json_Result =
  Vulnerabilities :: "json_Vulnerability list"

record json_Results =
  Results :: "json_Result list"

text \<open>\<^verbatim>\<open>gcp.Vulnerability\<close>, \<^verbatim>\<open>gcp.ScanResults\<close> and \<^verbatim>\<open>gcp.BuildResult\<close>.\<close>

record gcp_Vulnerability =
  VulnerabilityID :: string
  PkgName :: string
  InstalledVersion :: string
  FixedVersion :: string
  Severity :: string
  Title :: string
  Description :: string

record ScanResults =
  Vulnerabilities :: "gcp_Vulnerability list"

record BuildResult =
  ID :: string
  Status :: string
  StartTime :: int
  EndTime :: int
  Logs :: string
  ScanResults :: ScanResults

text \<open>
  Every \<^verbatim>\<open>fmt.Errorf\<close> of the package is one constructor, named after its message.
  The wrapped cause (\<^verbatim>\<open>%w\<close>) is another error of this type where the cause is an
  error of the package itself.
\<close>

datatype error =
    ScanResultsFileNotFound
  | FailedToReadScanResults
  | FailedToReadScanResultsContent
  | FailedToCreateDocktorDirectory
  | FailedToSaveRawJSONFile
  | FailedToParseScanResults
  | FailedToCreateHTMLReport
  | FailedToDeleteBuildContext
  | FailedToGetOperationStatus
  | BuildCompletedButFailedToGetScanResults error
  | FailedToCreateBucket
  | FailedToUploadBuildContext error
  | FailedToGetRelativePathForDockerfile
  | FailedToCreateBuild
  | FailedToCreateTemporaryFile
  | FailedToLoadGitignorePatterns
  | FailedToCreateTarArchive error
  | WalkError
  | FailedToCreateTarHeader
  | FailedToWriteTarHeader
  | FailedToOpenFile
  | FailedToWriteFileToTar
  | FailedToCloseTarWriter
  | FailedToCloseGzipWriter
  | FailedToResetFilePointer
  | FailedToUploadToCloudStorage
  | FailedToCloseCloudStorageWriter
  | FailedToLoadConfiguration
  | FailedToInitializeClient
  | FailedToGetAbsolutePathForContext
  | FailedToGetAbsolutePathForDockerfile
  | FailedToBuildAndScanImage error

text \<open>
  A directory tree on the local disk, as \<^verbatim>\<open>filepath.Walk\<close> meets it. A regular file
  has a name, its content and whether \<^verbatim>\<open>os.Open\<close> succeeds on it; any other
  non-directory (a symbolic link, a device, a socket) has a name, a size and whether
  \<^verbatim>\<open>tar.FileInfoHeader\<close> accepts it; a directory has a name, whether it can be
  listed, and its children in the order in which \<^verbatim>\<open>Walk\<close> visits them (by name).
\<close>

datatype fsnode =
    RegularFile string bytes bool
  | OtherFile string nat bool
  | Directory string bool "fsnode list"

datatype typeflag = TypeReg | TypeDir | TypeOther

record tar_entry =
  Name :: string
  Typeflag :: typeflag
  Body :: bytes

text \<open>The request of \<^verbatim>\<open>Builds.Create\<close>, with the nested structs flattened.\<close>

record BuildStep =
  Name :: string
  Args :: "string list"
  Dir :: string

record Build =
  Steps :: "BuildStep list"
  Timeout :: string
  Source_Bucket :: string
  Source_Object :: string
  Artifacts_Location :: string
  Artifacts_Paths :: "string list"

text \<open>
  The world the package acts on: the objects of Cloud Storage by bucket and object name,
  the buckets, the local directories and files, the lines printed by the \<^verbatim>\<open>fmt\<close>
  package (the progress lines of the \<^verbatim>\<open>color\<close> package are left out), the processes
  started, the wall clock in Unix seconds (advanced by \<^verbatim>\<open>time.Sleep\<close> only), the log of
  the status reads of the build service and of the sleeps between them, the directory
  trees by their root path, and the build requests created.
\<close>

datatype op_response = GetFailed | Operation bool "bytes option"

datatype call = OperationsGet op_response | Sleep nat

record world =
  buckets :: "string set"
  objects :: "string \<times> string \<rightharpoonup> bytes"
  dirs :: "string set"
  files :: "string \<rightharpoonup> bytes"
  stdout :: "string list"
  started :: "string list list"
  clock :: int
  calls :: "call list"
  trees :: "string \<rightharpoonup> fsnode"
  created :: "Build list"

text \<open>
  What the environment decides: which external calls fail, the operating system, the
  working directory, and the library functions whose code is not part of the repository
  (\<^verbatim>\<open>json.Unmarshal\<close> into the two target structs, \<^verbatim>\<open>time.Parse\<close>,
  \<^verbatim>\<open>Time.Format\<close>).
\<close>

record env =
  attrs_err :: bool
  new_reader_err :: bool
  read_all_err :: bool
  mkdir_all_err :: bool
  write_file_err :: bool
  create_err :: bool
  abs_err :: bool
  start_err :: bool
  GOOS :: string
  cwd :: string
  unmarshal_results :: "bytes \<Rightarrow> json_Results option"
  unmarshal_metadata :: "bytes \<Rightarrow> (string \<times> string) option"
  time_Parse :: "string \<Rightarrow> int option"
  time_Format :: "int \<Rightarrow> string"

text \<open>
  The environment of \<^verbatim>\<open>createAndUploadContext\<close>: the failures of its external calls,
  the result of \<^verbatim>\<open>loadGitignore\<close> (nil when the tree has no ignore file, otherwise
  \<^verbatim>\<open>MatchesPath\<close> of the matcher that the go-gitignore library compiles), and the
  tar and gzip encoding of the entries.
\<close>

record upload_env =
  create_temp_err :: bool
  load_gitignore_err :: bool
  gitignore :: "(string \<Rightarrow> bool) option"
  tar_header_err :: bool
  copy_err :: bool
  tar_close_err :: bool
  gzip_close_err :: bool
  seek_err :: bool
  upload_err :: bool
  writer_close_err :: bool
  encode_archive :: "tar_entry list \<Rightarrow> bytes"

text \<open>
  The environment of \<^verbatim>\<open>BuildAndScanImage\<close> and \<^verbatim>\<open>Cleanup\<close>: the failures of the
  bucket, build and delete calls, \<^verbatim>\<open>filepath.Rel\<close>, the response of the \<open>k\<close>-th
  \<^verbatim>\<open>Operations.Get\<close>, and what the remote job has stored as
  \<^verbatim>\<open>{buildID}/scan-results.json\<close> by the time the operation reports done.
\<close>

record build_env =
  bucket_attrs_err :: bool
  bucket_create_err :: bool
  build_create_err :: bool
  delete_err :: bool
  filepath_Rel :: "string \<Rightarrow> string \<Rightarrow> string option"
  operations_get :: "nat \<Rightarrow> op_response"
  job_artifact :: "bytes option"

text \<open>\<^verbatim>\<open>config.Config\<close> and the environment of the \<^verbatim>\<open>scan\<close> command.\<close>

record Config =
  GCPProjectID :: string
  GCPRegion :: string
  GCPServiceAccount :: string
  GCPServiceKeyPath :: string
  Severity :: string
  Timeout :: int

record cmd_env =
  LoadConfig :: "Config option"
  new_client_err :: bool
  time_String :: "int \<Rightarrow> string"

definition nl :: string where
  "nl = [CHR 0x0A]"

text \<open>
  \<^verbatim>\<open>filepath.Join(docktorDir, name)\<close>: the build ID is \<^verbatim>\<open>docktor-<seconds>\<close>, so both
  elements are clean and the join is the two elements around one separator.
\<close>

definition filepath_Join :: "string \<Rightarrow> string \<Rightarrow> string" where
  "filepath_Join dir name = dir @ ''/'' @ name"

text \<open>
  \<^verbatim>\<open>filepath.IsAbs\<close> and \<^verbatim>\<open>filepath.Abs\<close> on a POSIX system, for clean paths:
  \<^verbatim>\<open>Abs\<close> fails only when the working directory cannot be read.
\<close>

definition filepath_IsAbs :: "string \<Rightarrow> bool" where
  "filepath_IsAbs path = prefix ''/'' path"

definition filepath_Abs :: "env \<Rightarrow> string \<Rightarrow> string option" where
  "filepath_Abs e path =
     (if filepath_IsAbs path then Some path
      else if abs_err e then None
      else Some (filepath_Join (cwd e) path))"

text \<open>
  \<^verbatim>\<open>filepath.Base\<close>: the empty path gives a dot; trailing separators are dropped; the
  result is what follows the last separator, or a separator when nothing is left.
\<close>

definition filepath_Base :: "string \<Rightarrow> string" where
  "filepath_Base path =
     (if path = [] then ''.''
      else
        let stripped = rev (dropWhile (\<lambda>c. c = CHR ''/'') (rev path));
            last_elem = rev (takeWhile (\<lambda>c. c \<noteq> CHR ''/'') (rev stripped))
        in if last_elem = [] then ''/'' else last_elem)"

definition strings_Contains :: "string \<Rightarrow> string \<Rightarrow> bool" where
  "strings_Contains s substr = sublist substr s"

definition strings_HasSuffix :: "string \<Rightarrow> string \<Rightarrow> bool" where
  "strings_HasSuffix s suf = suffix suf s"

definition strings_HasPrefix :: "string \<Rightarrow> string \<Rightarrow> bool" where
  "strings_HasPrefix s pre = prefix pre s"

text \<open>\<^verbatim>\<open>strings.ToLower\<close> on the ASCII range, which holds the four severity names.\<close>

definition to_lower_char :: "char \<Rightarrow> char" where
  "to_lower_char c =
     (if (65::nat) \<le> of_char c \<and> of_char c \<le> (90::nat)
      then char_of (of_char c + (32::nat)) else c)"

definition strings_ToLower :: "string \<Rightarrow> string" where
  "strings_ToLower s = map to_lower_char s"

text \<open>\<^verbatim>\<open>%d\<close> of a length and of a Unix time: the decimal digits, most significant first.\<close>

fun digits :: "nat \<Rightarrow> string \<Rightarrow> string" where
  "digits n rest =
     (if 10 \<le> n then digits (n div 10) (char_of (n mod 10 + 48) # rest)
      else char_of (n + 48) # rest)"

declare digits.simps [simp del]

definition decimal :: "nat \<Rightarrow> string" where
  "decimal n = digits n []"

definition format_d :: "int \<Rightarrow> string" where
  "format_d i = (if 0 \<le> i then decimal (nat i) else CHR ''-'' # decimal (nat (- i)))"

text \<open>
  The two nested \<^verbatim>\<open>range\<close> loops that convert the decoded groups: the accumulator is
  \<^verbatim>\<open>scanResults.Vulnerabilities\<close>, grown by \<^verbatim>\<open>append\<close>.
\<close>

definition to_Vulnerability :: "json_Vulnerability \<Rightarrow> gcp_Vulnerability" where
  "to_Vulnerability vuln =
     \<lparr> VulnerabilityID = json_Vulnerability.VulnerabilityID vuln,
       PkgName = json_Vulnerability.PkgName vuln,
       InstalledVersion = json_Vulnerability.InstalledVersion vuln,
       FixedVersion = json_Vulnerability.FixedVersion vuln,
       Severity = json_Vulnerability.Severity vuln,
       Title = json_Vulnerability.Title vuln,
       Description = json_Vulnerability.Description vuln \<rparr>"

fun convert_vulns :: "json_Vulnerability list \<Rightarrow> gcp_Vulnerability list \<Rightarrow> gcp_Vulnerability list" where
  "convert_vulns [] acc = acc"
| "convert_vulns (vuln # rest) acc = convert_vulns rest (acc @ [to_Vulnerability vuln])"

fun convert_results :: "json_Result list \<Rightarrow> gcp_Vulnerability list \<Rightarrow> gcp_Vulnerability list" where
  "convert_results [] acc = acc"
| "convert_results (result # rest) acc =
     convert_results rest (convert_vulns (json_Result.Vulnerabilities result) acc)"

text \<open>
  \<^verbatim>\<open>vulnsBySeverity[vuln.Severity] = append(vulnsBySeverity[vuln.Severity], vuln)\<close>:
  reading a key the map does not hold gives the nil slice.
\<close>

definition slice_index :: "('k \<rightharpoonup> 'a list) \<Rightarrow> 'k \<Rightarrow> 'a list" where
  "slice_index m k = (case m k of None \<Rightarrow> [] | Some vs \<Rightarrow> vs)"

fun group_by_severity ::
  "gcp_Vulnerability list \<Rightarrow> (string \<rightharpoonup> gcp_Vulnerability list) \<Rightarrow> (string \<rightharpoonup> gcp_Vulnerability list)" where
  "group_by_severity [] bySeverity = bySeverity"
| "group_by_severity (vuln # rest) bySeverity =
     group_by_severity rest
       (bySeverity(gcp_Vulnerability.Severity vuln \<mapsto>
          slice_index bySeverity (gcp_Vulnerability.Severity vuln) @ [vuln]))"

text \<open>
  Lines 316 to 320 give \<open>vulnsBySeverity\<close>, the grouping from the empty map.
  The report is written by a sequence of \<^verbatim>\<open>fmt.Fprintf\<close> calls on the file. Each call
  is one \<open>html_write\<close> holding the arguments of its format string; \<open>render\<close> is the text
  the call writes.
\<close>

definition vulnsBySeverity :: "gcp_Vulnerability list \<Rightarrow> (string \<rightharpoonup> gcp_Vulnerability list)" where
  "vulnsBySeverity vulns = group_by_severity vulns Map.empty"

datatype html_write =
    WriteHeader string string
  | WriteSeverityCard string string nat
  | WriteSummaryEnd
  | WriteVulnerabilityHead string string string string
  | WriteFixedVersion string
  | WriteVulnerabilityTail string string
  | WriteFooter

definition html_severityOrder :: "string list" where
  "html_severityOrder = [''CRITICAL'', ''HIGH'', ''MEDIUM'', ''LOW'']"

fun write_summary :: "string list \<Rightarrow> (string \<rightharpoonup> gcp_Vulnerability list) \<Rightarrow> html_write list" where
  "write_summary [] bySeverity = []"
| "write_summary (severity # rest) bySeverity =
     (case bySeverity severity of
        Some vulns \<Rightarrow> [WriteSeverityCard (strings_ToLower severity) severity (length vulns)]
      | None \<Rightarrow> [])
     @ write_summary rest bySeverity"

definition write_vulnerability :: "string \<Rightarrow> gcp_Vulnerability \<Rightarrow> html_write list" where
  "write_vulnerability severity vuln =
     [WriteVulnerabilityHead (strings_ToLower severity) (gcp_Vulnerability.Title vuln)
        (gcp_Vulnerability.PkgName vuln) (gcp_Vulnerability.InstalledVersion vuln)]
     @ (if gcp_Vulnerability.FixedVersion vuln \<noteq> []
        then [WriteFixedVersion (gcp_Vulnerability.FixedVersion vuln)] else [])
     @ [WriteVulnerabilityTail (gcp_Vulnerability.Description vuln)
          (gcp_Vulnerability.VulnerabilityID vuln)]"

fun write_findings :: "string list \<Rightarrow> (string \<rightharpoonup> gcp_Vulnerability list) \<Rightarrow> html_write list" where
  "write_findings [] bySeverity = []"
| "write_findings (severity # rest) bySeverity =
     (case bySeverity severity of
        Some vulns \<Rightarrow> concat (map (write_vulnerability severity) vulns)
      | None \<Rightarrow> [])
     @ write_findings rest bySeverity"

definition html_writes :: "string \<Rightarrow> string \<Rightarrow> (string \<rightharpoonup> gcp_Vulnerability list) \<Rightarrow> html_write list" where
  "html_writes buildID now bySeverity =
     [WriteHeader buildID now]
     @ write_summary html_severityOrder bySeverity
     @ [WriteSummaryEnd]
     @ write_findings html_severityOrder bySeverity
     @ [WriteFooter]"

definition html_header :: "string \<Rightarrow> string \<Rightarrow> string" where
  \<open>html_header buildID now =
      ''<!DOCTYPE html>'' @ nl @
      ''<html>'' @ nl @
      ''<head>'' @ nl @
      ''    <title>Vulnerability Scan Report - '' @ buildID @ ''</title>'' @ nl @
      ''    <style>'' @ nl @
      ''        body {'' @ nl @
      ''            font-family: -apple-system, BlinkMacSystemFont, "Segoe UI", Roboto, "Helvetica Neue", Arial, sans-serif;'' @ nl @
      ''            line-height: 1.6;'' @ nl @
      ''            color: #333;'' @ nl @
      ''            max-width: 1200px;'' @ nl @
      ''            margin: 0 auto;'' @ nl @
      ''            padding: 20px;'' @ nl @
      ''        }'' @ nl @
      ''        .header {'' @ nl @
      ''            text-align: center;'' @ nl @
      ''            margin-bottom: 30px;'' @ nl @
      ''            padding: 20px;'' @ nl @
      ''            background: #f8f9fa;'' @ nl @
      ''            border-radius: 8px;'' @ nl @
      ''        }'' @ nl @
      ''        .summary {'' @ nl @
      ''            display: flex;'' @ nl @
      ''            justify-content: space-around;'' @ nl @
      ''            margin-bottom: 30px;'' @ nl @
      ''            flex-wrap: wrap;'' @ nl @
      ''        }'' @ nl @
      ''        .severity-card {'' @ nl @
      ''            padding: 15px;'' @ nl @
      ''            border-radius: 8px;'' @ nl @
      ''            margin: 10px;'' @ nl @
      ''            min-width: 200px;'' @ nl @
      ''            text-align: center;'' @ nl @
      ''            color: white;'' @ nl @
      ''        }'' @ nl @
      ''        .critical { background-color: #dc3545; }'' @ nl @
      ''        .high { background-color: #fd7e14; }'' @ nl @
      ''        .medium { background-color: #ffc107; color: #000; }'' @ nl @
      ''        .low { background-color: #20c997; }'' @ nl @
      ''        .vulnerability {'' @ nl @
      ''            margin-bottom: 20px;'' @ nl @
      ''            padding: 20px;'' @ nl @
      ''            border-radius: 8px;'' @ nl @
      ''            background: #f8f9fa;'' @ nl @
      ''        }'' @ nl @
      ''        .vulnerability.critical { border-left: 5px solid #dc3545; }'' @ nl @
      ''        .vulnerability.high { border-left: 5px solid #fd7e14; }'' @ nl @
      ''        .vulnerability.medium { border-left: 5px solid #ffc107; }'' @ nl @
      ''        .vulnerability.low { border-left: 5px solid #20c997; }'' @ nl @
      ''        .vulnerability h3 {'' @ nl @
      ''            margin-top: 0;'' @ nl @
      ''            color: #495057;'' @ nl @
      ''        }'' @ nl @
      ''        .vulnerability p {'' @ nl @
      ''            margin: 5px 0;'' @ nl @
      ''        }'' @ nl @
      ''        .label {'' @ nl @
      ''            font-weight: bold;'' @ nl @
      ''            color: #495057;'' @ nl @
      ''        }'' @ nl @
      ''        .timestamp {'' @ nl @
      ''            color: #6c757d;'' @ nl @
      ''            font-size: 0.9em;'' @ nl @
      ''        }'' @ nl @
      ''    </style>'' @ nl @
      ''</head>'' @ nl @
      ''<body>'' @ nl @
      ''    <div class="header">'' @ nl @
      ''        <h1>Vulnerability Scan Report</h1>'' @ nl @
      ''        <p class="timestamp">Generated on '' @ now @ ''</p>'' @ nl @
      ''    </div>'' @ nl @
      [] @ nl @
      ''    <div class="summary">'' @ nl\<close>

fun render :: "html_write \<Rightarrow> string" where
  \<open>render (WriteHeader buildID now) = html_header buildID now\<close>
| \<open>render (WriteSeverityCard cls severity n) =
      nl @
      ''        <div class="severity-card '' @ cls @ ''">'' @ nl @
      ''            <h2>'' @ severity @ ''</h2>'' @ nl @
      ''            <p>'' @ decimal n @ '' vulnerabilities</p>'' @ nl @
      ''        </div>''\<close>
| \<open>render WriteSummaryEnd =
      nl @
      ''    </div>'' @ nl @
      nl @
      ''    <div class="vulnerabilities">''\<close>
| \<open>render (WriteVulnerabilityHead cls title pkg installed) =
      nl @
      ''        <div class="vulnerability '' @ cls @ ''">'' @ nl @
      ''            <h3>'' @ title @ ''</h3>'' @ nl @
      ''            <p><span class="label">Package:</span> '' @ pkg @ ''</p>'' @ nl @
      ''            <p><span class="label">Installed Version:</span> '' @ installed @ ''</p>''\<close>
| \<open>render (WriteFixedVersion fixed) =
      nl @
      ''            <p><span class="label">Fixed Version:</span> '' @ fixed @ ''</p>''\<close>
| \<open>render (WriteVulnerabilityTail description vid) =
      nl @
      ''            <p><span class="label">Description:</span> '' @ description @ ''</p>'' @ nl @
      ''            <p><span class="label">Vulnerability ID:</span> '' @ vid @ ''</p>'' @ nl @
      ''        </div>''\<close>
| \<open>render WriteFooter =
      nl @
      ''    </div>'' @ nl @
      ''</body>'' @ nl @
      ''</html>''\<close>

definition html_text :: "html_write list \<Rightarrow> string" where
  "html_text ws = concat (map render ws)"

text \<open>
  Lines 451 to 479: print the path of the report and open it in the browser. A failure
  of \<^verbatim>\<open>filepath.Abs\<close> or of \<^verbatim>\<open>cmd.Start\<close> is a printed warning, never an error.
\<close>

definition open_report :: "env \<Rightarrow> string \<Rightarrow> world \<Rightarrow> world" where
  "open_report e htmlPath w =
     (let w1 = w\<lparr>stdout := stdout w @ [nl @ ''Scan completed! View the results at: '' @ htmlPath @ nl]\<rparr> in
      case filepath_Abs e htmlPath of
        None \<Rightarrow>
          w1\<lparr>stdout := stdout w1 @ [''Warning: Could not get absolute path for report'' @ nl]\<rparr>
      | Some absPath \<Rightarrow>
        let fileURL = ''file://'' @ absPath;
            cmd = (if GOOS e = ''darwin'' then [''open'', fileURL]
                   else if GOOS e = ''windows'' then [''cmd'', ''/c'', ''start'', fileURL]
                   else [''xdg-open'', fileURL])
        in if start_err e
           then w1\<lparr>stdout := stdout w1 @ [''Warning: Could not open report in browser'' @ nl]\<rparr>
           else w1\<lparr>started := started w1 @ [cmd]\<rparr>)"

text \<open>
  Lines 297 to 449: convert, group, create the report file and write it. The writes to
  the file are unchecked in the source, so only \<^verbatim>\<open>os.Create\<close> can fail.
\<close>

definition write_report ::
  "env \<Rightarrow> string \<Rightarrow> json_Results \<Rightarrow> world \<Rightarrow> (error + ScanResults) \<times> world" where
  "write_report e buildID results w =
     (let scanResults = \<lparr> Vulnerabilities = convert_results (Results results) [] \<rparr>;
          bySeverity = vulnsBySeverity (ScanResults.Vulnerabilities scanResults);
          htmlPath = filepath_Join ''docktor'' (buildID @ ''-report.html'')
      in if create_err e then (Inl FailedToCreateHTMLReport, w)
         else
           let w1 = w\<lparr>files := (files w)(htmlPath \<mapsto>
                      html_text (html_writes buildID (time_Format e (clock w)) bySeverity))\<rparr>
           in (Inr scanResults, open_report e htmlPath w1))"

text \<open>
  \<^verbatim>\<open>getScanResults\<close>. \<^verbatim>\<open>obj.Attrs\<close> fails when the object is absent, and may fail for
  another reason (\<open>attrs_err\<close>); either way the error is the same.
\<close>

definition getScanResults ::
  "env \<Rightarrow> string \<Rightarrow> string \<Rightarrow> world \<Rightarrow> (error + ScanResults) \<times> world" where
  "getScanResults e bucketName buildID w =
     (case objects w (bucketName, buildID @ ''/scan-results.json'') of
        None \<Rightarrow> (Inl ScanResultsFileNotFound, w)
      | Some content \<Rightarrow>
          if attrs_err e then (Inl ScanResultsFileNotFound, w)
          else if new_reader_err e then (Inl FailedToReadScanResults, w)
          else if read_all_err e then (Inl FailedToReadScanResultsContent, w)
          else if mkdir_all_err e then (Inl FailedToCreateDocktorDirectory, w)
          else
            let w1 = w\<lparr>dirs := insert ''docktor'' (dirs w)\<rparr>;
                rawJSONPath = filepath_Join ''docktor'' (buildID @ ''-raw.json'')
            in if write_file_err e then (Inl FailedToSaveRawJSONFile, w1)
               else
                 let w2 = w1\<lparr>files := (files w1)(rawJSONPath \<mapsto> content)\<rparr>
                 in (case unmarshal_results e content of
                       None \<Rightarrow> (Inl FailedToParseScanResults, w2)
                     | Some results \<Rightarrow> write_report e buildID results w2))"



section \<open>Package gcp: the build context archive\<close>

text \<open>
  The closure \<^verbatim>\<open>shouldExclude\<close> of \<^verbatim>\<open>createAndUploadContext\<close>, with the loaded
  matcher as its first argument. The path is relative to the context root.
\<close>

definition shouldExclude :: "(string \<Rightarrow> bool) option \<Rightarrow> string \<Rightarrow> bool" where
  "shouldExclude matcher path =
     (let base = filepath_Base path in
      if strings_Contains path ''/node_modules/'' \<or> strings_HasSuffix path ''/node_modules''
      then True
      else if strings_HasPrefix base ''.'' then True
      else if base = ''.git'' then True
      else if (case matcher of None \<Rightarrow> False | Some MatchesPath \<Rightarrow> MatchesPath path) then True
      else False)"

text \<open>
  The tar writer with the four counters. The counters are \<^verbatim>\<open>int64\<close> sums of file
  sizes, far from the wrap-around.
\<close>

record archive_state =
  entries :: "tar_entry list"
  totalFiles :: int
  totalSize :: int
  excludedFiles :: int
  excludedSize :: int

datatype walk_result = Continue archive_state | SkipDir archive_state | Abort error

fun node_name :: "fsnode \<Rightarrow> string" where
  "node_name (RegularFile name content openable) = name"
| "node_name (OtherFile name sz supported) = name"
| "node_name (Directory name listable children) = name"

fun IsDir :: "fsnode \<Rightarrow> bool" where
  "IsDir (Directory name listable children) = True"
| "IsDir node = False"

fun node_size :: "fsnode \<Rightarrow> int" where
  "node_size (RegularFile name content openable) = int (length content)"
| "node_size (OtherFile name sz supported) = int sz"
| "node_size (Directory name listable children) = 0"

fun header_ok :: "fsnode \<Rightarrow> bool" where
  "header_ok (OtherFile name sz supported) = supported"
| "header_ok node = True"

fun node_typeflag :: "fsnode \<Rightarrow> typeflag" where
  "node_typeflag (RegularFile name content openable) = TypeReg"
| "node_typeflag (OtherFile name sz supported) = TypeOther"
| "node_typeflag (Directory name listable children) = TypeDir"

text \<open>
  The function passed to \<^verbatim>\<open>filepath.Walk\<close>. \<open>is_root\<close> is \<^verbatim>\<open>path == contextPath\<close>,
  \<open>relPath\<close> is \<^verbatim>\<open>filepath.Rel(contextPath, path)\<close>, and \<open>err\<close> tells whether
  \<^verbatim>\<open>Walk\<close> passes an error.
\<close>

definition walkFn ::
  "upload_env \<Rightarrow> bool \<Rightarrow> string \<Rightarrow> fsnode \<Rightarrow> bool \<Rightarrow> archive_state \<Rightarrow> walk_result" where
  "walkFn u is_root relPath info err st =
     (if err then Abort WalkError
      else if is_root then Continue st
      else if shouldExclude (gitignore u) relPath then
        (if IsDir info then SkipDir st
         else Continue (st\<lparr>excludedFiles := excludedFiles st + 1,
                            excludedSize := excludedSize st + node_size info\<rparr>))
      else if \<not> header_ok info then Abort FailedToCreateTarHeader
      else if tar_header_err u then Abort FailedToWriteTarHeader
      else
        (case info of
           RegularFile name content openable \<Rightarrow>
             if \<not> openable then Abort FailedToOpenFile
             else if copy_err u then Abort FailedToWriteFileToTar
             else Continue
               (st\<lparr>entries := entries st @
                      [\<lparr>tar_entry.Name = relPath, Typeflag = TypeReg, Body = content\<rparr>],
                    totalFiles := totalFiles st + 1,
                    totalSize := totalSize st + node_size info\<rparr>)
         | _ \<Rightarrow> Continue
               (st\<lparr>entries := entries st @
                      [\<lparr>tar_entry.Name = relPath, Typeflag = node_typeflag info, Body = []\<rparr>]\<rparr>)))"

definition rel_join :: "string \<Rightarrow> string \<Rightarrow> string" where
  "rel_join dir name = (if dir = [] then name else dir @ ''/'' @ name)"

text \<open>
  \<^verbatim>\<open>filepath.Walk\<close> of the standard library: a directory is listed, the function is
  called on it with the error of the listing, and unless either failed its children are
  walked in order. \<^verbatim>\<open>SkipDir\<close> returned for a directory skips its children; returned
  for another node it skips the rest of the containing directory.
\<close>

fun walk :: "upload_env \<Rightarrow> bool \<Rightarrow> string \<Rightarrow> fsnode \<Rightarrow> archive_state \<Rightarrow> walk_result"
  and walk_names :: "upload_env \<Rightarrow> string \<Rightarrow> fsnode list \<Rightarrow> archive_state \<Rightarrow> walk_result" where
  "walk u is_root relPath (Directory name listable children) st =
     (case walkFn u is_root relPath (Directory name listable children) (\<not> listable) st of
        Continue st1 \<Rightarrow> if listable then walk_names u relPath children st1 else Continue st1
      | SkipDir st1 \<Rightarrow> SkipDir st1
      | Abort e \<Rightarrow> Abort e)"
| "walk u is_root relPath (RegularFile name content openable) st =
     walkFn u is_root relPath (RegularFile name content openable) False st"
| "walk u is_root relPath (OtherFile name sz supported) st =
     walkFn u is_root relPath (OtherFile name sz supported) False st"
| "walk_names u dir [] st = Continue st"
| "walk_names u dir (child # rest) st =
     (case walk u False (rel_join dir (node_name child)) child st of
        Continue st1 \<Rightarrow> walk_names u dir rest st1
      | SkipDir st1 \<Rightarrow> if IsDir child then walk_names u dir rest st1 else SkipDir st1
      | Abort e \<Rightarrow> Abort e)"

definition empty_archive :: archive_state where
  "empty_archive =
     \<lparr> entries = [], totalFiles = 0, totalSize = 0, excludedFiles = 0, excludedSize = 0 \<rparr>"

text \<open>
  \<^verbatim>\<open>filepath.Walk(contextPath, ...)\<close>: when the root cannot be read the function is
  called once with the error; \<^verbatim>\<open>SkipDir\<close> from the walk is not an error.
\<close>

definition filepath_Walk :: "upload_env \<Rightarrow> fsnode option \<Rightarrow> error + archive_state" where
  "filepath_Walk u root =
     (case (case root of
              None \<Rightarrow> walkFn u True [] (Directory [] False []) True empty_archive
            | Some info \<Rightarrow> walk u True [] info empty_archive) of
        Continue st \<Rightarrow> Inr st
      | SkipDir st \<Rightarrow> Inr st
      | Abort e \<Rightarrow> Inl e)"

text \<open>
  \<^verbatim>\<open>createAndUploadContext\<close>. The temporary file is removed on return, so it leaves
  no trace in the world; the object is stored when the storage writer is closed.
\<close>

definition createAndUploadContext ::
  "upload_env \<Rightarrow> string \<Rightarrow> string \<Rightarrow> string \<Rightarrow> world \<Rightarrow> error option \<times> world" where
  "createAndUploadContext u bucketName buildID contextPath w =
     (if create_temp_err u then (Some FailedToCreateTemporaryFile, w)
      else if load_gitignore_err u then (Some FailedToLoadGitignorePatterns, w)
      else
        (case filepath_Walk u (trees w contextPath) of
           Inl e \<Rightarrow> (Some (FailedToCreateTarArchive e), w)
         | Inr st \<Rightarrow>
             if tar_close_err u then (Some FailedToCloseTarWriter, w)
             else if gzip_close_err u then (Some FailedToCloseGzipWriter, w)
             else if seek_err u then (Some FailedToResetFilePointer, w)
             else if upload_err u then (Some FailedToUploadToCloudStorage, w)
             else if writer_close_err u then (Some FailedToCloseCloudStorageWriter, w)
             else (None, w\<lparr>objects := (objects w)
                     ((bucketName, buildID @ ''/context.tar.gz'') \<mapsto>
                        encode_archive u (entries st))\<rparr>)))"


section \<open>Package gcp: building, waiting and cleaning up\<close>

text \<open>
  The \<^verbatim>\<open>if op.Done\<close> branch of the waiting loop (lines 193 to 237). The zero
  \<^verbatim>\<open>time.Time\<close>, which \<^verbatim>\<open>time.Parse\<close> returns with its ignored error, is the first
  second of year 1.
\<close>

definition zero_time :: int where
  "zero_time = - 62135596800"

definition parse_or_zero :: "env \<Rightarrow> string \<Rightarrow> int" where
  "parse_or_zero e s = (case time_Parse e s of None \<Rightarrow> zero_time | Some t \<Rightarrow> t)"

definition build_completed ::
  "env \<Rightarrow> string \<Rightarrow> string \<Rightarrow> string \<Rightarrow> bytes option \<Rightarrow> world
     \<Rightarrow> (error + BuildResult) \<times> world" where
  "build_completed e projectID bucketName buildID Metadata w =
     (case getScanResults e bucketName buildID w of
        (Inl err, w1) \<Rightarrow> (Inl (BuildCompletedButFailedToGetScanResults err), w1)
      | (Inr scanResults, w1) \<Rightarrow>
          let now = clock w1;
              times =
                (case Metadata of
                   None \<Rightarrow> (now, now)
                 | Some raw \<Rightarrow>
                     (case unmarshal_metadata e raw of
                        None \<Rightarrow> (now, now)
                      | Some (startText, endText) \<Rightarrow>
                          (if startText \<noteq> [] then parse_or_zero e startText else now,
                           if endText \<noteq> [] then parse_or_zero e endText else now)))
          in (Inr \<lparr> BuildResult.ID = buildID,
                    Status = ''SUCCESS'',
                    StartTime = fst times,
                    EndTime = snd times,
                    Logs = ''https://console.cloud.google.com/cloud-build/builds/'' @ buildID
                           @ ''?project='' @ projectID,
                    ScanResults = scanResults \<rparr>, w1))"

text \<open>
  The loop \<^verbatim>\<open>for { ... time.Sleep(5 * time.Second) }\<close> of \<^verbatim>\<open>BuildAndScanImage\<close>,
  from its \<open>k\<close>-th status read on. It has no exit other than a failed read and a read
  that reports done, so it is a partial function: \<open>None\<close> is a loop that never returns.
  When the operation reports done, the remote job has left its artifact, if any, in the
  bucket.
\<close>

partial_function (option) wait_for_build ::
  "build_env \<Rightarrow> env \<Rightarrow> string \<Rightarrow> string \<Rightarrow> string \<Rightarrow> nat \<Rightarrow> world
     \<Rightarrow> ((error + BuildResult) \<times> world) option" where
  "wait_for_build b e projectID bucketName buildID k w =
     (case operations_get b k of
        GetFailed \<Rightarrow>
          Some (Inl FailedToGetOperationStatus, w\<lparr>calls := calls w @ [OperationsGet GetFailed]\<rparr>)
      | Operation Done Metadata \<Rightarrow>
          if Done then
            Some (build_completed e projectID bucketName buildID Metadata
                    (w\<lparr>calls := calls w @ [OperationsGet (Operation Done Metadata)],
                       objects := (objects w)
                         ((bucketName, buildID @ ''/scan-results.json'') := job_artifact b)\<rparr>))
          else
            wait_for_build b e projectID bucketName buildID (Suc k)
              (w\<lparr>calls := calls w @ [OperationsGet (Operation Done Metadata), Sleep 5],
                 clock := clock w + 5\<rparr>))"

text \<open>The build request of lines 141 to 176.\<close>

definition build_request :: "string \<Rightarrow> string \<Rightarrow> string \<Rightarrow> string \<Rightarrow> Build" where
  "build_request projectID bucketName buildID dockerfileArg =
     \<lparr> Steps =
         [\<lparr> BuildStep.Name = ''gcr.io/cloud-builders/docker'',
            Args = [''build'', ''-t'', ''gcr.io/'' @ projectID @ ''/'' @ buildID,
                    ''-f'', dockerfileArg, ''.''],
            Dir = ''/workspace'' \<rparr>,
          \<lparr> BuildStep.Name = ''aquasec/trivy'',
            Args = [''image'', ''--format'', ''json'',
                    ''--output'', ''/workspace/scan-results.json'',
                    ''gcr.io/'' @ projectID @ ''/'' @ buildID],
            Dir = [] \<rparr>],
       Timeout = ''1800s'',
       Source_Bucket = bucketName,
       Source_Object = buildID @ ''/context.tar.gz'',
       Artifacts_Location = ''gs://'' @ bucketName @ ''/'' @ buildID,
       Artifacts_Paths = [''scan-results.json''] \<rparr>"

text \<open>
  Lines 121 to 136: the Dockerfile argument. \<^verbatim>\<open>filepath.Rel\<close> cleans its arguments, so
  the join before it is left as the plain concatenation.
\<close>

definition dockerfile_arg :: "build_env \<Rightarrow> string \<Rightarrow> string \<Rightarrow> string option" where
  "dockerfile_arg b contextPath dockerfilePath =
     (if dockerfilePath \<noteq> [] then
        let absDockerfilePath =
              (if \<not> filepath_IsAbs dockerfilePath
               then filepath_Join contextPath dockerfilePath else dockerfilePath)
        in filepath_Rel b contextPath absDockerfilePath
      else Some ''Dockerfile'')"

text \<open>
  \<^verbatim>\<open>BuildAndScanImage\<close>. \<^verbatim>\<open>bucket.Attrs\<close> fails for a bucket that does not exist (or
  by \<open>bucket_attrs_err\<close>); \<^verbatim>\<open>bucket.Create\<close> fails for a bucket that exists (or by
  \<open>bucket_create_err\<close>).
\<close>

definition BuildAndScanImage ::
  "build_env \<Rightarrow> upload_env \<Rightarrow> env \<Rightarrow> string \<Rightarrow> string \<Rightarrow> string \<Rightarrow> world
     \<Rightarrow> ((error + BuildResult) \<times> world) option" where
  "BuildAndScanImage b u e projectID contextPath dockerfilePath w =
     (let buildID = ''docktor-'' @ format_d (clock w);
          bucketName = projectID @ ''-docktor-builds''
      in
        if (bucketName \<notin> buckets w \<or> bucket_attrs_err b)
           \<and> (bucketName \<in> buckets w \<or> bucket_create_err b)
        then Some (Inl FailedToCreateBucket, w)
        else
          let w1 = w\<lparr>buckets := insert bucketName (buckets w)\<rparr> in
          (case createAndUploadContext u bucketName buildID contextPath w1 of
             (Some err, w2) \<Rightarrow> Some (Inl (FailedToUploadBuildContext err), w2)
           | (None, w2) \<Rightarrow>
               (case dockerfile_arg b contextPath dockerfilePath of
                  None \<Rightarrow> Some (Inl FailedToGetRelativePathForDockerfile, w2)
                | Some dockerfileArg \<Rightarrow>
                    if build_create_err b then Some (Inl FailedToCreateBuild, w2)
                    else
                      wait_for_build b e projectID bucketName buildID 0
                        (w2\<lparr>created := created w2 @
                           [build_request projectID bucketName buildID dockerfileArg]\<rparr>))))"

text \<open>\<^verbatim>\<open>Cleanup\<close>: deleting an object that does not exist is an error of the store.\<close>

definition Cleanup :: "build_env \<Rightarrow> string \<Rightarrow> string \<Rightarrow> world \<Rightarrow> error option \<times> world" where
  "Cleanup b projectID buildID w =
     (let bucketName = projectID @ ''-docktor-builds'';
          object = (bucketName, buildID @ ''/context.tar.gz'')
      in if delete_err b \<or> objects w object = None
         then (Some FailedToDeleteBuildContext, w)
         else (None, w\<lparr>objects := (objects w)(object := None)\<rparr>))"


section \<open>Package cmd: the scan command\<close>

text \<open>
  \<^verbatim>\<open>RunE\<close> of \<^verbatim>\<open>scanCmd\<close>. The result is the returned error, \<open>None\<close> for
  \<^verbatim>\<open>nil\<close>; the outer \<open>option\<close> is \<open>None\<close> when the waiting loop never returns.
\<close>

definition print_result :: "cmd_env \<Rightarrow> BuildResult \<Rightarrow> world \<Rightarrow> world" where
  "print_result c result w =
     w\<lparr>stdout := stdout w @
        [nl @ ''Build completed with status: '' @ Status result @ nl,
         ''Build ID: '' @ BuildResult.ID result @ nl,
         ''Start time: '' @ time_String c (StartTime result) @ nl,
         ''End time: '' @ time_String c (EndTime result) @ nl,
         ''Logs: '' @ Logs result @ nl]\<rparr>"

definition scanCmd ::
  "cmd_env \<Rightarrow> build_env \<Rightarrow> upload_env \<Rightarrow> env \<Rightarrow> string \<Rightarrow> string \<Rightarrow> world
     \<Rightarrow> (error option \<times> world) option" where
  "scanCmd c b u e contextPath dockerfilePath w =
     (case LoadConfig c of
        None \<Rightarrow> Some (Some FailedToLoadConfiguration, w)
      | Some cfg \<Rightarrow>
          if new_client_err c then Some (Some FailedToInitializeClient, w)
          else
            (case filepath_Abs e contextPath of
               None \<Rightarrow> Some (Some FailedToGetAbsolutePathForContext, w)
             | Some absContextPath \<Rightarrow>
                 (case filepath_Abs e dockerfilePath of
                    None \<Rightarrow> Some (Some FailedToGetAbsolutePathForDockerfile, w)
                  | Some absDockerfilePath \<Rightarrow>
                      (case BuildAndScanImage b u e (GCPProjectID cfg) absContextPath
                              absDockerfilePath
                              (w\<lparr>stdout := stdout w @ [''Starting build and scan...'' @ nl]\<rparr>) of
                         None \<Rightarrow> None
                       | Some (Inl err, w1) \<Rightarrow> Some (Some (FailedToBuildAndScanImage err), w1)
                       | Some (Inr result, w1) \<Rightarrow>
                           (case Cleanup b (GCPProjectID cfg) (BuildResult.ID result)
                                   (print_result c result w1) of
                              (Some err, w2) \<Rightarrow>
                                Some (None, w2\<lparr>stdout := stdout w2 @
                                  [''Warning: failed to cleanup build artifacts'' @ nl]\<rparr>)
                            | (None, w2) \<Rightarrow> Some (None, w2))))))"


section \<open>The job life cycle of the specification\<close>

text \<open>
  The specification describes the waiting loop as a state machine: \<open>Submitted\<close> at
  the start, \<open>Running\<close> on a status response that is not terminal, \<open>Succeeded\<close> or
  \<open>Failed\<close> on a terminal outcome, \<open>TimedOut\<close> when a client-side budget elapses.
  \<open>poller_states\<close> reads the states passed through off the log of a run and its
  result; the code itself has no such state variable.
\<close>

datatype poller_state = Submitted | Running | Succeeded | Failed | TimedOut

fun observed_state :: "(error + BuildResult) \<Rightarrow> call \<Rightarrow> poller_state option" where
  "observed_state r (Sleep n) = None"
| "observed_state r (OperationsGet GetFailed) = Some Failed"
| "observed_state r (OperationsGet (Operation Done Metadata)) =
     Some (if Done then (case r of Inl err \<Rightarrow> Failed | Inr result \<Rightarrow> Succeeded) else Running)"

definition poller_states :: "call list \<Rightarrow> (error + BuildResult) \<Rightarrow> poller_state list" where
  "poller_states log r = remdups_adj (Submitted # List.map_filter (observed_state r) log)"



subsection \<open>Concrete artifacts and worlds\<close>

definition example_artifact :: bytes where
  \<open>example_artifact =
     ''{"Results":[{"Vulnerabilities":[{"VulnerabilityID":"A","Severity":"CRITICAL","FixedVersion":"2.0"},{"VulnerabilityID":"B","Severity":"UNKNOWN"}]},{"Vulnerabilities":[{"VulnerabilityID":"C","Severity":"LOW"}]}]}''\<close>

definition vuln_A :: json_Vulnerability where
  "vuln_A = \<lparr> json_Vulnerability.VulnerabilityID = ''A'', PkgName = [], InstalledVersion = [],
               FixedVersion = ''2.0'', Severity = ''CRITICAL'', Title = [], Description = [] \<rparr>"

definition vuln_B :: json_Vulnerability where
  "vuln_B = \<lparr> json_Vulnerability.VulnerabilityID = ''B'', PkgName = [], InstalledVersion = [],
               FixedVersion = [], Severity = ''UNKNOWN'', Title = [], Description = [] \<rparr>"

definition vuln_C :: json_Vulnerability where
  "vuln_C = \<lparr> json_Vulnerability.VulnerabilityID = ''C'', PkgName = [], InstalledVersion = [],
               FixedVersion = [], Severity = ''LOW'', Title = [], Description = [] \<rparr>"

definition example_results :: json_Results where
  "example_results =
     \<lparr> Results = [\<lparr> json_Result.Vulnerabilities = [vuln_A, vuln_B] \<rparr>,
                   \<lparr> json_Result.Vulnerabilities = [vuln_C] \<rparr>] \<rparr>"

text \<open>
  A decoder that agrees with \<^verbatim>\<open>json.Unmarshal\<close> on the two artifacts used below: the
  two-group document above, and a text that is not JSON.
\<close>

definition example_unmarshal :: "bytes \<Rightarrow> json_Results option" where
  "example_unmarshal content = (if content = example_artifact then Some example_results else None)"

definition no_metadata :: "bytes \<Rightarrow> (string \<times> string) option" where
  "no_metadata md = None"

definition no_time :: "string \<Rightarrow> int option" where
  "no_time s = None"

definition fixed_format :: "int \<Rightarrow> string" where
  "fixed_format t = ''November 14, 2023 22:13:20''"

definition example_env :: env where
  "example_env =
     \<lparr> attrs_err = False, new_reader_err = False, read_all_err = False,
       mkdir_all_err = False, write_file_err = False, create_err = False,
       abs_err = False, start_err = False,
       GOOS = ''linux'', cwd = ''/work'',
       unmarshal_results = example_unmarshal, unmarshal_metadata = no_metadata,
       time_Parse = no_time, time_Format = fixed_format \<rparr>"

definition empty_world :: world where
  "empty_world =
     \<lparr> buckets = {''proj-docktor-builds''}, objects = Map.empty, dirs = {}, files = Map.empty,
       stdout = [], started = [], clock = 1700000000, calls = [],
       trees = Map.empty, created = [] \<rparr>"

definition example_world :: world where
  "example_world =
     empty_world\<lparr>objects :=
       [(''proj-docktor-builds'', ''docktor-1700000000/scan-results.json'') \<mapsto> example_artifact]\<rparr>"

definition broken_world :: world where
  "broken_world =
     empty_world\<lparr>objects :=
       [(''proj-docktor-builds'', ''docktor-1700000000/scan-results.json'') \<mapsto> ''<html>502</html>'']\<rparr>"

definition plain_encoding :: "tar_entry list \<Rightarrow> bytes" where
  "plain_encoding es = concat (map (\<lambda>e. tar_entry.Name e @ nl @ Body e) es)"

definition plain_upload_env :: upload_env where
  "plain_upload_env =
     \<lparr> create_temp_err = False, load_gitignore_err = False, gitignore = None,
       tar_header_err = False, copy_err = False, tar_close_err = False,
       gzip_close_err = False, seek_err = False, upload_err = False,
       writer_close_err = False, encode_archive = plain_encoding \<rparr>"

definition node_project :: fsnode where
  "node_project =
     Directory ''app'' True
       [RegularFile ''.env'' ''SECRET=1'' True,
        RegularFile ''Dockerfile'' ''FROM node'' True,
        Directory ''node_modules'' True
          [Directory ''left-pad'' True [RegularFile ''index.js'' ''module.exports = 1'' True]],
        Directory ''web'' True
          [Directory ''node_modules'' True [RegularFile ''x.js'' ''1'' True]]]"

definition always_pending :: "nat \<Rightarrow> op_response" where
  "always_pending k = Operation False None"

definition done_at_third :: "nat \<Rightarrow> op_response" where
  "done_at_third k = Operation (2 \<le> k) None"

definition no_rel :: "string \<Rightarrow> string \<Rightarrow> string option" where
  "no_rel base target = (if target = base @ ''/Dockerfile'' then Some ''Dockerfile'' else None)"

definition pending_build_env :: build_env where
  "pending_build_env =
     \<lparr> bucket_attrs_err = False, bucket_create_err = False, build_create_err = False,
       delete_err = False, filepath_Rel = no_rel, operations_get = always_pending,
       job_artifact = None \<rparr>"

definition example_build_env :: build_env where
  "example_build_env =
     \<lparr> bucket_attrs_err = False, bucket_create_err = False, build_create_err = False,
       delete_err = True, filepath_Rel = no_rel, operations_get = done_at_third,
       job_artifact = Some example_artifact \<rparr>"

definition example_config :: Config where
  "example_config =
     \<lparr> GCPProjectID = ''proj'', GCPRegion = ''global'', GCPServiceAccount = [],
       GCPServiceKeyPath = [], Severity = [], Timeout = 0 \<rparr>"

definition example_cmd_env :: cmd_env where
  "example_cmd_env =
     \<lparr> LoadConfig = Some example_config, new_client_err = False, time_String = fixed_format \<rparr>"

definition project_world :: world where
  "project_world = empty_world\<lparr>trees := [''/work/app'' \<mapsto> node_project]\<rparr>"

definition unknown_vuln :: gcp_Vulnerability where
  "unknown_vuln = to_Vulnerability vuln_B"

section \<open>Package scanner: severity filter of a scan report\<close>

text \<open>
  \<^verbatim>\<open>type Severity string\<close> with five named constants. Any other string is a
  well-typed \<^verbatim>\<open>Severity\<close> as well, so the type stays \<open>string\<close>.
\<close>

type_synonym Severity = string

definition SeverityCritical :: Severity where "SeverityCritical = ''CRITICAL''"
definition SeverityHigh :: Severity where "SeverityHigh = ''HIGH''"
definition SeverityMedium :: Severity where "SeverityMedium = ''MEDIUM''"
definition SeverityLow :: Severity where "SeverityLow = ''LOW''"
definition SeverityUnknown :: Severity where "SeverityUnknown = ''UNKNOWN''"

record Vulnerability =
  ID :: string
  Title :: string
  Description :: string
  Severity :: Severity
  Package :: string
  Version :: string
  FixedIn :: string
  URL :: string

record ScanReport =
  ImageName :: string
  ScanTime :: string
  Vulnerabilities :: "Vulnerability list"

text \<open>
  The map literal \<^verbatim>\<open>severityOrder\<close> of \<^verbatim>\<open>FilterBySeverity\<close>. Indexing a Go map
  with a key it does not hold yields the zero value of the element type, here \<open>0\<close>;
  \<open>map_index\<close> is that read.
\<close>

definition severityOrder :: "Severity \<rightharpoonup> int" where
  "severityOrder =
     [SeverityCritical \<mapsto> 4,
      SeverityHigh \<mapsto> 3,
      SeverityMedium \<mapsto> 2,
      SeverityLow \<mapsto> 1,
      SeverityUnknown \<mapsto> 0]"

definition map_index :: "('k \<rightharpoonup> int) \<Rightarrow> 'k \<Rightarrow> int" where
  "map_index m k = (case m k of None \<Rightarrow> 0 | Some v \<Rightarrow> v)"

text \<open>
  The \<^verbatim>\<open>for _, vuln := range r.Vulnerabilities\<close> loop: the third argument is
  \<^verbatim>\<open>filtered.Vulnerabilities\<close>, grown by \<^verbatim>\<open>append\<close>.
\<close>

fun filter_loop :: "int \<Rightarrow> Vulnerability list \<Rightarrow> Vulnerability list \<Rightarrow> Vulnerability list" where
  "filter_loop minSeverityLevel [] filtered = filtered"
| "filter_loop minSeverityLevel (vuln # rest) filtered =
     filter_loop minSeverityLevel rest
       (if map_index severityOrder (Severity vuln) \<ge> minSeverityLevel
        then filtered @ [vuln] else filtered)"

definition FilterBySeverity :: "ScanReport \<Rightarrow> Severity \<Rightarrow> ScanReport" where
  "FilterBySeverity r minSeverity =
     (let minSeverityLevel = map_index severityOrder minSeverity in
      \<lparr> ImageName = ImageName r,
        ScanTime = ScanTime r,
        Vulnerabilities = filter_loop minSeverityLevel (Vulnerabilities r) [] \<rparr>)"



section \<open>Properties of the severity filter\<close>

lemma filter_loop_eq:
  "filter_loop l vs acc = acc @ filter (\<lambda>v. l \<le> map_index severityOrder (Severity v)) vs"
  by (induction vs arbitrary: acc) simp_all

lemma FilterBySeverity_Vulnerabilities:
  "Vulnerabilities (FilterBySeverity r m) =
     filter (\<lambda>v. map_index severityOrder m \<le> map_index severityOrder (Severity v))
       (Vulnerabilities r)"
  by (simp add: FilterBySeverity_def filter_loop_eq)

lemma rank_values:
  "map_index severityOrder SeverityCritical = 4"
  "map_index severityOrder SeverityHigh = 3"
  "map_index severityOrder SeverityMedium = 2"
  "map_index severityOrder SeverityLow = 1"
  "map_index severityOrder SeverityUnknown = 0"
  by (simp_all add: map_index_def severityOrder_def SeverityCritical_def SeverityHigh_def
      SeverityMedium_def SeverityLow_def SeverityUnknown_def)



text \<open>
  C1. For every report and every minimum severity, the vulnerability list of
  \<open>FilterBySeverity r m\<close> is a subsequence of the input list (same relative order),
  every retained vulnerability has a rank at least the rank of the threshold, and the
  ranks are CRITICAL 4, HIGH 3, MEDIUM 2, LOW 1, UNKNOWN 0.
\<close>

theorem FilterBySeverity_subseq_rank:
  "subseq (Vulnerabilities (FilterBySeverity r m)) (Vulnerabilities r)
   \<and> (\<forall>v \<in> set (Vulnerabilities (FilterBySeverity r m)).
        map_index severityOrder (Severity v) \<ge> map_index severityOrder m)
   \<and> map_index severityOrder SeverityCritical = 4
   \<and> map_index severityOrder SeverityHigh = 3
   \<and> map_index severityOrder SeverityMedium = 2
   \<and> map_index severityOrder SeverityLow = 1
   \<and> map_index severityOrder SeverityUnknown = 0"
  by (simp add: FilterBySeverity_Vulnerabilities rank_values)

theorem FilterBySeverity_subseq_rank_witness:
  "\<lparr>ID = ''CVE-1'', Title = ''t'', Description = ''d'', Severity = ''CRITICAL'',
     Package = ''p'', Version = ''1'', FixedIn = [], URL = []\<rparr>
     \<in> set (Vulnerabilities (FilterBySeverity
          \<lparr>ImageName = ''img'', ScanTime = ''now'', Vulnerabilities =
             [\<lparr>ID = ''CVE-0'', Title = ''t'', Description = ''d'', Severity = ''LOW'',
                Package = ''p'', Version = ''1'', FixedIn = [], URL = []\<rparr>,
              \<lparr>ID = ''CVE-1'', Title = ''t'', Description = ''d'', Severity = ''CRITICAL'',
                Package = ''p'', Version = ''1'', FixedIn = [], URL = []\<rparr>]\<rparr>
          ''HIGH''))
   \<and> map_index severityOrder ''CRITICAL'' \<ge> map_index severityOrder ''HIGH''"
proof -
  let ?v = "\<lparr>ID = ''CVE-1'', Title = ''t'', Description = ''d'', Severity = ''CRITICAL'',
     Package = ''p'', Version = ''1'', FixedIn = [], URL = []\<rparr>"
  let ?r = "\<lparr>ImageName = ''img'', ScanTime = ''now'', Vulnerabilities =
             [\<lparr>ID = ''CVE-0'', Title = ''t'', Description = ''d'', Severity = ''LOW'',
                Package = ''p'', Version = ''1'', FixedIn = [], URL = []\<rparr>, ?v]\<rparr>"
  have mem: "?v \<in> set (Vulnerabilities (FilterBySeverity ?r ''HIGH''))"
    by (simp add: FilterBySeverity_def map_index_def severityOrder_def SeverityCritical_def
        SeverityHigh_def SeverityMedium_def SeverityLow_def SeverityUnknown_def)
  from FilterBySeverity_subseq_rank [of ?r "''HIGH''"] mem
  have "map_index severityOrder (Severity ?v) \<ge> map_index severityOrder ''HIGH''"
    by blast
  with mem show ?thesis by simp
qed




section \<open>Properties of the retrieval\<close>

lemma convert_vulns_eq: "convert_vulns vs acc = acc @ map to_Vulnerability vs"
  by (induction vs arbitrary: acc) simp_all

lemma convert_results_eq:
  "convert_results rs acc =
     acc @ concat (map (\<lambda>g. map to_Vulnerability (json_Result.Vulnerabilities g)) rs)"
  by (induction rs arbitrary: acc) (simp_all add: convert_vulns_eq)

lemma group_by_severity_eq:
  "group_by_severity vulns m s =
     (if \<exists>v \<in> set vulns. gcp_Vulnerability.Severity v = s
      then Some (slice_index m s @ filter (\<lambda>v. gcp_Vulnerability.Severity v = s) vulns)
      else m s)"
proof (induction vulns arbitrary: m)
  case Nil
  then show ?case by simp
next
  case (Cons v vulns)
  show ?case
    by (simp add: Cons.IH slice_index_def) 
qed

lemma group_by_severity_empty:
  "group_by_severity vulns Map.empty s =
     (if \<exists>v \<in> set vulns. gcp_Vulnerability.Severity v = s
      then Some (filter (\<lambda>v. gcp_Vulnerability.Severity v = s) vulns)
      else None)"
  by (simp add: group_by_severity_eq slice_index_def)

lemma write_summary_eq:
  "write_summary order (group_by_severity vulns Map.empty) =
     map (\<lambda>s. WriteSeverityCard (strings_ToLower s) s
                 (length (filter (\<lambda>v. gcp_Vulnerability.Severity v = s) vulns)))
       (filter (\<lambda>s. \<exists>v \<in> set vulns. gcp_Vulnerability.Severity v = s) order)"
  by (induction order) (simp_all add: group_by_severity_empty)

lemma filter_none: "\<not> (\<exists>v \<in> set vulns. P v) \<Longrightarrow> filter P vulns = []"
  by (induction vulns) auto

lemma write_findings_eq:
  "write_findings order (group_by_severity vulns Map.empty) =
     concat (map (\<lambda>s. concat (map (write_vulnerability s)
                 (filter (\<lambda>v. gcp_Vulnerability.Severity v = s) vulns))) order)"
  by (induction order) (simp_all add: group_by_severity_empty filter_none)

lemma fixed_line_iff:
  "WriteFixedVersion (gcp_Vulnerability.FixedVersion v) \<in> set (write_vulnerability s v)
     \<longleftrightarrow> gcp_Vulnerability.FixedVersion v \<noteq> []"
  by (simp add: write_vulnerability_def)

lemma filter_sev_in_order:
  "s \<in> set order \<Longrightarrow>
   filter (\<lambda>v. gcp_Vulnerability.Severity v \<in> set order \<and> gcp_Vulnerability.Severity v = s) vulns
   = filter (\<lambda>v. gcp_Vulnerability.Severity v = s) vulns"
  by (rule filter_cong) auto

lemma html_writes_ignore_other:
  "html_writes b t (group_by_severity
      (filter (\<lambda>v. gcp_Vulnerability.Severity v \<in> set html_severityOrder) vulns) Map.empty)
   = html_writes b t (group_by_severity vulns Map.empty)"
proof -
  let ?kept = "filter (\<lambda>v. gcp_Vulnerability.Severity v \<in> set html_severityOrder) vulns"
  have present: "filter (\<lambda>s. \<exists>v \<in> set ?kept. gcp_Vulnerability.Severity v = s) html_severityOrder
      = filter (\<lambda>s. \<exists>v \<in> set vulns. gcp_Vulnerability.Severity v = s) html_severityOrder"
    by (rule filter_cong) auto
  have 1: "write_summary html_severityOrder (group_by_severity ?kept Map.empty)
     = write_summary html_severityOrder (group_by_severity vulns Map.empty)"
    unfolding write_summary_eq present
    by (rule map_cong) (simp_all add: filter_sev_in_order)
  have 2: "write_findings html_severityOrder (group_by_severity ?kept Map.empty)
     = write_findings html_severityOrder (group_by_severity vulns Map.empty)"
    unfolding write_findings_eq
    by (rule arg_cong [where f = concat], rule map_cong) (simp_all add: filter_sev_in_order)
  show ?thesis by (simp only: html_writes_def 1 2)
qed

lemma raw_neq_report:
  "filepath_Join ''docktor'' (buildID @ ''-report.html'') \<noteq> filepath_Join ''docktor'' (buildID @ ''-raw.json'')"
  by (simp add: filepath_Join_def)

lemma open_report_files: "files (open_report e p w) = files w"
  by (simp add: open_report_def Let_def split: option.splits)

lemma write_report_raw:
  "write_report e buildID results w = (r, w') \<Longrightarrow>
   files w' (filepath_Join ''docktor'' (buildID @ ''-raw.json''))
     = files w (filepath_Join ''docktor'' (buildID @ ''-raw.json''))"
  using raw_neq_report [of buildID]
  by (auto simp: write_report_def Let_def open_report_files split: if_splits)

lemma write_report_result:
  "fst (write_report e buildID results w) = Inr sr \<Longrightarrow>
   ScanResults.Vulnerabilities sr =
     concat (map (\<lambda>g. map to_Vulnerability (json_Result.Vulnerabilities g)) (Results results))"
  by (auto simp: write_report_def Let_def convert_results_eq split: if_splits)

lemma write_report_not_parse_error:
  "fst (write_report e buildID results w) \<noteq> Inl FailedToParseScanResults"
  "fst (write_report e buildID results w) \<noteq> Inl ScanResultsFileNotFound"
  by (auto simp: write_report_def Let_def split: if_splits)

lemma to_Vulnerability_fun:
  "to_Vulnerability =
     (\<lambda>vuln.
       \<lparr> gcp_Vulnerability.VulnerabilityID = json_Vulnerability.VulnerabilityID vuln,
         PkgName = json_Vulnerability.PkgName vuln,
         InstalledVersion = json_Vulnerability.InstalledVersion vuln,
         FixedVersion = json_Vulnerability.FixedVersion vuln,
         Severity = json_Vulnerability.Severity vuln,
         Title = json_Vulnerability.Title vuln,
         Description = json_Vulnerability.Description vuln \<rparr>)"
  by (rule ext) (simp add: to_Vulnerability_def)

lemma example_scan_run:
  "fst (getScanResults example_env ''proj-docktor-builds'' ''docktor-1700000000'' example_world)
     = Inr \<lparr>ScanResults.Vulnerabilities =
         [\<lparr>gcp_Vulnerability.VulnerabilityID = ''A'', PkgName = [], InstalledVersion = [],
           FixedVersion = ''2.0'', Severity = ''CRITICAL'', Title = [], Description = []\<rparr>,
          \<lparr>gcp_Vulnerability.VulnerabilityID = ''B'', PkgName = [], InstalledVersion = [],
           FixedVersion = [], Severity = ''UNKNOWN'', Title = [], Description = []\<rparr>,
          \<lparr>gcp_Vulnerability.VulnerabilityID = ''C'', PkgName = [], InstalledVersion = [],
           FixedVersion = [], Severity = ''LOW'', Title = [], Description = []\<rparr>]\<rparr>"
  by (simp add: getScanResults_def example_world_def empty_world_def example_env_def
      example_unmarshal_def write_report_def Let_def example_results_def
      to_Vulnerability_def vuln_A_def vuln_B_def vuln_C_def)

text \<open>
  C2. Whenever \<open>getScanResults\<close> returns scan results, the artifact was present and
  decoded, and the vulnerability list is the concatenation of the decoded groups, in the
  order of the groups and, within each group, in the order of its entries, each entry
  carrying over its seven fields unchanged. In particular the groups \<open>[A, B]\<close> and
  \<open>[C]\<close> give \<open>[A, B, C]\<close>, field by field.
\<close>

theorem getScanResults_flattens_groups:
  "(fst (getScanResults e bucketName buildID w) = Inr scanResults \<longrightarrow>
     (\<exists>content results.
        objects w (bucketName, buildID @ ''/scan-results.json'') = Some content \<and>
        unmarshal_results e content = Some results \<and>
        ScanResults.Vulnerabilities scanResults =
          concat (map (\<lambda>group.
              map (\<lambda>vuln.
                \<lparr> gcp_Vulnerability.VulnerabilityID = json_Vulnerability.VulnerabilityID vuln,
                  PkgName = json_Vulnerability.PkgName vuln,
                  InstalledVersion = json_Vulnerability.InstalledVersion vuln,
                  FixedVersion = json_Vulnerability.FixedVersion vuln,
                  Severity = json_Vulnerability.Severity vuln,
                  Title = json_Vulnerability.Title vuln,
                  Description = json_Vulnerability.Description vuln \<rparr>)
                (json_Result.Vulnerabilities group))
            (Results results))))
   \<and> convert_results
        [\<lparr>json_Result.Vulnerabilities =
            [\<lparr>json_Vulnerability.VulnerabilityID = idA, PkgName = pkgA, InstalledVersion = verA,
              FixedVersion = fixA, Severity = sevA, Title = titleA, Description = descA\<rparr>,
             \<lparr>json_Vulnerability.VulnerabilityID = idB, PkgName = pkgB, InstalledVersion = verB,
              FixedVersion = fixB, Severity = sevB, Title = titleB, Description = descB\<rparr>]\<rparr>,
         \<lparr>json_Result.Vulnerabilities =
            [\<lparr>json_Vulnerability.VulnerabilityID = idC, PkgName = pkgC, InstalledVersion = verC,
              FixedVersion = fixC, Severity = sevC, Title = titleC, Description = descC\<rparr>]\<rparr>] []
       = [\<lparr>gcp_Vulnerability.VulnerabilityID = idA, PkgName = pkgA, InstalledVersion = verA,
           FixedVersion = fixA, Severity = sevA, Title = titleA, Description = descA\<rparr>,
          \<lparr>gcp_Vulnerability.VulnerabilityID = idB, PkgName = pkgB, InstalledVersion = verB,
           FixedVersion = fixB, Severity = sevB, Title = titleB, Description = descB\<rparr>,
          \<lparr>gcp_Vulnerability.VulnerabilityID = idC, PkgName = pkgC, InstalledVersion = verC,
           FixedVersion = fixC, Severity = sevC, Title = titleC, Description = descC\<rparr>]"
proof (intro conjI impI)
  assume ok: "fst (getScanResults e bucketName buildID w) = Inr scanResults"
  then obtain content where c: "objects w (bucketName, buildID @ ''/scan-results.json'') = Some content"
    by (auto simp: getScanResults_def split: option.splits)
  from ok c obtain results where r: "unmarshal_results e content = Some results"
    by (auto simp: getScanResults_def Let_def split: option.splits if_splits)
  from ok c r have "\<exists>w2. fst (write_report e buildID results w2) = Inr scanResults"
    by (auto simp: getScanResults_def Let_def split: if_splits)
  then have "ScanResults.Vulnerabilities scanResults =
      concat (map (\<lambda>g. map to_Vulnerability (json_Result.Vulnerabilities g)) (Results results))"
    by (auto dest: write_report_result)
  then have "ScanResults.Vulnerabilities scanResults =
          concat (map (\<lambda>group.
              map (\<lambda>vuln.
                \<lparr> gcp_Vulnerability.VulnerabilityID = json_Vulnerability.VulnerabilityID vuln,
                  PkgName = json_Vulnerability.PkgName vuln,
                  InstalledVersion = json_Vulnerability.InstalledVersion vuln,
                  FixedVersion = json_Vulnerability.FixedVersion vuln,
                  Severity = json_Vulnerability.Severity vuln,
                  Title = json_Vulnerability.Title vuln,
                  Description = json_Vulnerability.Description vuln \<rparr>)
                (json_Result.Vulnerabilities group))
            (Results results))"
    by (simp only: to_Vulnerability_fun)
  with c r show "\<exists>content results.
        objects w (bucketName, buildID @ ''/scan-results.json'') = Some content \<and>
        unmarshal_results e content = Some results \<and>
        ScanResults.Vulnerabilities scanResults =
          concat (map (\<lambda>group.
              map (\<lambda>vuln.
                \<lparr> gcp_Vulnerability.VulnerabilityID = json_Vulnerability.VulnerabilityID vuln,
                  PkgName = json_Vulnerability.PkgName vuln,
                  InstalledVersion = json_Vulnerability.InstalledVersion vuln,
                  FixedVersion = json_Vulnerability.FixedVersion vuln,
                  Severity = json_Vulnerability.Severity vuln,
                  Title = json_Vulnerability.Title vuln,
                  Description = json_Vulnerability.Description vuln \<rparr>)
                (json_Result.Vulnerabilities group))
            (Results results))"
    by blast
next
  show "convert_results
        [\<lparr>json_Result.Vulnerabilities =
            [\<lparr>json_Vulnerability.VulnerabilityID = idA, PkgName = pkgA, InstalledVersion = verA,
              FixedVersion = fixA, Severity = sevA, Title = titleA, Description = descA\<rparr>,
             \<lparr>json_Vulnerability.VulnerabilityID = idB, PkgName = pkgB, InstalledVersion = verB,
              FixedVersion = fixB, Severity = sevB, Title = titleB, Description = descB\<rparr>]\<rparr>,
         \<lparr>json_Result.Vulnerabilities =
            [\<lparr>json_Vulnerability.VulnerabilityID = idC, PkgName = pkgC, InstalledVersion = verC,
              FixedVersion = fixC, Severity = sevC, Title = titleC, Description = descC\<rparr>]\<rparr>] []
       = [\<lparr>gcp_Vulnerability.VulnerabilityID = idA, PkgName = pkgA, InstalledVersion = verA,
           FixedVersion = fixA, Severity = sevA, Title = titleA, Description = descA\<rparr>,
          \<lparr>gcp_Vulnerability.VulnerabilityID = idB, PkgName = pkgB, InstalledVersion = verB,
           FixedVersion = fixB, Severity = sevB, Title = titleB, Description = descB\<rparr>,
          \<lparr>gcp_Vulnerability.VulnerabilityID = idC, PkgName = pkgC, InstalledVersion = verC,
           FixedVersion = fixC, Severity = sevC, Title = titleC, Description = descC\<rparr>]"
    by (simp add: convert_results_eq to_Vulnerability_def)
qed

theorem getScanResults_flattens_groups_witness:
  "fst (getScanResults example_env ''proj-docktor-builds'' ''docktor-1700000000'' example_world)
     = Inr \<lparr>ScanResults.Vulnerabilities =
         [\<lparr>gcp_Vulnerability.VulnerabilityID = ''A'', PkgName = [], InstalledVersion = [],
           FixedVersion = ''2.0'', Severity = ''CRITICAL'', Title = [], Description = []\<rparr>,
          \<lparr>gcp_Vulnerability.VulnerabilityID = ''B'', PkgName = [], InstalledVersion = [],
           FixedVersion = [], Severity = ''UNKNOWN'', Title = [], Description = []\<rparr>,
          \<lparr>gcp_Vulnerability.VulnerabilityID = ''C'', PkgName = [], InstalledVersion = [],
           FixedVersion = [], Severity = ''LOW'', Title = [], Description = []\<rparr>]\<rparr>
   \<and> objects example_world (''proj-docktor-builds'', ''docktor-1700000000'' @ ''/scan-results.json'')
       = Some example_artifact
   \<and> unmarshal_results example_env example_artifact =
       Some \<lparr>Results =
         [\<lparr>json_Result.Vulnerabilities =
            [\<lparr>json_Vulnerability.VulnerabilityID = ''A'', PkgName = [], InstalledVersion = [],
              FixedVersion = ''2.0'', Severity = ''CRITICAL'', Title = [], Description = []\<rparr>,
             \<lparr>json_Vulnerability.VulnerabilityID = ''B'', PkgName = [], InstalledVersion = [],
              FixedVersion = [], Severity = ''UNKNOWN'', Title = [], Description = []\<rparr>]\<rparr>,
          \<lparr>json_Result.Vulnerabilities =
            [\<lparr>json_Vulnerability.VulnerabilityID = ''C'', PkgName = [], InstalledVersion = [],
              FixedVersion = [], Severity = ''LOW'', Title = [], Description = []\<rparr>]\<rparr>]\<rparr>"
proof -
  let ?out = "\<lparr>ScanResults.Vulnerabilities =
         [\<lparr>gcp_Vulnerability.VulnerabilityID = ''A'', PkgName = [], InstalledVersion = [],
           FixedVersion = ''2.0'', Severity = ''CRITICAL'', Title = [], Description = []\<rparr>,
          \<lparr>gcp_Vulnerability.VulnerabilityID = ''B'', PkgName = [], InstalledVersion = [],
           FixedVersion = [], Severity = ''UNKNOWN'', Title = [], Description = []\<rparr>,
          \<lparr>gcp_Vulnerability.VulnerabilityID = ''C'', PkgName = [], InstalledVersion = [],
           FixedVersion = [], Severity = ''LOW'', Title = [], Description = []\<rparr>]\<rparr>"
  have obj: "objects example_world
      (''proj-docktor-builds'', ''docktor-1700000000'' @ ''/scan-results.json'') = Some example_artifact"
    by (simp add: example_world_def empty_world_def)
  have dec: "unmarshal_results example_env example_artifact = Some example_results"
    by (simp add: example_env_def example_unmarshal_def)
  have "\<exists>scanResults. fst (getScanResults example_env ''proj-docktor-builds''
          ''docktor-1700000000'' example_world) = Inr scanResults"
    using obj dec
    by (simp add: getScanResults_def write_report_def Let_def example_env_def)
  then obtain scanResults where run: "fst (getScanResults example_env ''proj-docktor-builds''
          ''docktor-1700000000'' example_world) = Inr scanResults"
    by blast
  from getScanResults_flattens_groups
         [where e = example_env and bucketName = "''proj-docktor-builds''"
            and buildID = "''docktor-1700000000''" and w = example_world
            and scanResults = scanResults] run obj dec
  have "ScanResults.Vulnerabilities scanResults = ScanResults.Vulnerabilities ?out"
    by (simp add: example_results_def vuln_A_def vuln_B_def vuln_C_def)
  then have "scanResults = ?out" by simp
  with run obj dec show ?thesis
    by (simp add: example_results_def vuln_A_def vuln_B_def vuln_C_def)
qed

text \<open>
  C5. When the artifact object does not exist, retrieval fails with the error
  \<open>ScanResultsFileNotFound\<close>. When the object exists, is read and saved, and its
  content does not decode, retrieval fails with \<open>FailedToParseScanResults\<close>. The two
  errors are distinct, and the parse error is returned only for an object that exists
  and whose content does not decode; a missing key never yields it.
\<close>

theorem getScanResults_not_found_vs_format:
  "(objects w (bucketName, buildID @ ''/scan-results.json'') = None \<longrightarrow>
      fst (getScanResults e bucketName buildID w) = Inl ScanResultsFileNotFound)
   \<and> (objects w (bucketName, buildID @ ''/scan-results.json'') = Some content
        \<and> \<not> attrs_err e \<and> \<not> new_reader_err e \<and> \<not> read_all_err e
        \<and> \<not> mkdir_all_err e \<and> \<not> write_file_err e
        \<and> unmarshal_results e content = None \<longrightarrow>
      fst (getScanResults e bucketName buildID w) = Inl FailedToParseScanResults)
   \<and> ScanResultsFileNotFound \<noteq> FailedToParseScanResults
   \<and> (fst (getScanResults e bucketName buildID w) = Inl FailedToParseScanResults \<longrightarrow>
        (\<exists>present. objects w (bucketName, buildID @ ''/scan-results.json'') = Some present
           \<and> unmarshal_results e present = None))"
proof (intro conjI impI)
  assume "objects w (bucketName, buildID @ ''/scan-results.json'') = None"
  then show "fst (getScanResults e bucketName buildID w) = Inl ScanResultsFileNotFound"
    by (simp add: getScanResults_def)
next
  assume "objects w (bucketName, buildID @ ''/scan-results.json'') = Some content
        \<and> \<not> attrs_err e \<and> \<not> new_reader_err e \<and> \<not> read_all_err e
        \<and> \<not> mkdir_all_err e \<and> \<not> write_file_err e
        \<and> unmarshal_results e content = None"
  then show "fst (getScanResults e bucketName buildID w) = Inl FailedToParseScanResults"
    by (simp add: getScanResults_def Let_def)
next
  show "ScanResultsFileNotFound \<noteq> FailedToParseScanResults" by simp
next
  assume failed: "fst (getScanResults e bucketName buildID w) = Inl FailedToParseScanResults"
  then obtain present where p: "objects w (bucketName, buildID @ ''/scan-results.json'') = Some present"
    by (auto simp: getScanResults_def split: option.splits)
  from failed p have "unmarshal_results e present = None"
    by (auto simp: getScanResults_def Let_def write_report_not_parse_error
        split: if_splits option.splits)
  with p show "\<exists>present. objects w (bucketName, buildID @ ''/scan-results.json'') = Some present
           \<and> unmarshal_results e present = None"
    by blast
qed

lemma broken_unmarshal: "unmarshal_results example_env ''<html>502</html>'' = None"
  by (simp add: example_env_def example_unmarshal_def example_artifact_def)

theorem getScanResults_not_found_vs_format_witness:
  "objects empty_world (''proj-docktor-builds'', ''docktor-1700000000'' @ ''/scan-results.json'') = None
   \<and> fst (getScanResults example_env ''proj-docktor-builds'' ''docktor-1700000000'' empty_world)
       = Inl ScanResultsFileNotFound
   \<and> objects broken_world (''proj-docktor-builds'', ''docktor-1700000000'' @ ''/scan-results.json'')
       = Some ''<html>502</html>''
   \<and> \<not> attrs_err example_env \<and> \<not> new_reader_err example_env \<and> \<not> read_all_err example_env
   \<and> \<not> mkdir_all_err example_env \<and> \<not> write_file_err example_env
   \<and> unmarshal_results example_env ''<html>502</html>'' = None
   \<and> fst (getScanResults example_env ''proj-docktor-builds'' ''docktor-1700000000'' broken_world)
       = Inl FailedToParseScanResults"
proof -
  have absent: "objects empty_world
      (''proj-docktor-builds'', ''docktor-1700000000'' @ ''/scan-results.json'') = None"
    by (simp add: empty_world_def)
  have present: "objects broken_world
      (''proj-docktor-builds'', ''docktor-1700000000'' @ ''/scan-results.json'')
        = Some ''<html>502</html>''"
    by (simp add: broken_world_def empty_world_def)
  have ok: "\<not> attrs_err example_env \<and> \<not> new_reader_err example_env \<and> \<not> read_all_err example_env
      \<and> \<not> mkdir_all_err example_env \<and> \<not> write_file_err example_env"
    by (simp add: example_env_def)
  from getScanResults_not_found_vs_format
         [where w = empty_world and bucketName = "''proj-docktor-builds''"
            and buildID = "''docktor-1700000000''" and e = example_env] absent
  have 1: "fst (getScanResults example_env ''proj-docktor-builds'' ''docktor-1700000000'' empty_world)
       = Inl ScanResultsFileNotFound"
    by blast
  from getScanResults_not_found_vs_format
         [where w = broken_world and bucketName = "''proj-docktor-builds''"
            and buildID = "''docktor-1700000000''" and content = "''<html>502</html>''"
            and e = example_env]
       present ok broken_unmarshal
  have 2: "fst (getScanResults example_env ''proj-docktor-builds'' ''docktor-1700000000'' broken_world)
       = Inl FailedToParseScanResults"
    by blast
  from absent present ok broken_unmarshal 1 2 show ?thesis by blast
qed

text \<open>
  C6. In every run of \<open>getScanResults\<close> that gets as far as decoding, the file
  \<open>docktor/{buildID}-raw.json\<close> holds the bytes of the artifact unchanged. In
  particular a run that ends with the parse error leaves the raw file on disk.
\<close>

theorem raw_bytes_persisted_before_parsing:
  "getScanResults e bucketName buildID w = (r, w') \<Longrightarrow>
   (r = Inl FailedToParseScanResults \<longrightarrow>
      (\<exists>content.
         objects w (bucketName, buildID @ ''/scan-results.json'') = Some content
         \<and> unmarshal_results e content = None
         \<and> files w' (''docktor/'' @ buildID @ ''-raw.json'') = Some content))
   \<and> (r \<notin> {Inl ScanResultsFileNotFound, Inl FailedToReadScanResults,
             Inl FailedToReadScanResultsContent, Inl FailedToCreateDocktorDirectory,
             Inl FailedToSaveRawJSONFile} \<longrightarrow>
      (\<exists>content.
         objects w (bucketName, buildID @ ''/scan-results.json'') = Some content
         \<and> files w' (''docktor/'' @ buildID @ ''-raw.json'') = Some content))"
proof -
  assume run: "getScanResults e bucketName buildID w = (r, w')"
  let ?raw = "filepath_Join ''docktor'' (buildID @ ''-raw.json'')"
  have path: "?raw = ''docktor/'' @ buildID @ ''-raw.json''"
    by (simp add: filepath_Join_def)
  have late: "\<exists>content.
         objects w (bucketName, buildID @ ''/scan-results.json'') = Some content
         \<and> (r = Inl FailedToParseScanResults \<longrightarrow> unmarshal_results e content = None)
         \<and> files w' ?raw = Some content"
    if "r \<notin> {Inl ScanResultsFileNotFound, Inl FailedToReadScanResults,
             Inl FailedToReadScanResultsContent, Inl FailedToCreateDocktorDirectory,
             Inl FailedToSaveRawJSONFile}"
  proof -
    from run that obtain content where
      c: "objects w (bucketName, buildID @ ''/scan-results.json'') = Some content"
      by (auto simp: getScanResults_def split: option.splits)
    from run that c have nofault: "\<not> attrs_err e" "\<not> new_reader_err e" "\<not> read_all_err e"
        "\<not> mkdir_all_err e" "\<not> write_file_err e"
      by (auto simp: getScanResults_def Let_def split: if_splits)
    let ?w2 = "w\<lparr>dirs := insert ''docktor'' (dirs w),
                 files := (files w)(?raw \<mapsto> content)\<rparr>"
    show ?thesis
    proof (cases "unmarshal_results e content")
      case None
      with run c nofault have "w' = ?w2"
        by (simp add: getScanResults_def Let_def)
      with c None show ?thesis by simp
    next
      case (Some results)
      with run c nofault have wr: "write_report e buildID results ?w2 = (r, w')"
        by (simp add: getScanResults_def Let_def)
      then have "files w' ?raw = files ?w2 ?raw" by (rule write_report_raw)
      moreover from wr have "r \<noteq> Inl FailedToParseScanResults"
        using write_report_not_parse_error(1) [of e buildID results ?w2] by auto
      ultimately show ?thesis using c by simp
    qed
  qed
  show ?thesis
    using late unfolding path by blast
qed

lemma broken_run:
  "getScanResults example_env ''proj-docktor-builds'' ''docktor-1700000000'' broken_world
     = (Inl FailedToParseScanResults,
        broken_world\<lparr>dirs := {''docktor''},
          files := [''docktor/docktor-1700000000-raw.json'' \<mapsto> ''<html>502</html>'']\<rparr>)"
  by (simp add: getScanResults_def broken_world_def empty_world_def example_env_def
      example_unmarshal_def example_artifact_def Let_def filepath_Join_def)

theorem raw_bytes_persisted_before_parsing_witness:
  "getScanResults example_env ''proj-docktor-builds'' ''docktor-1700000000'' broken_world
     = (Inl FailedToParseScanResults,
        broken_world\<lparr>dirs := {''docktor''},
          files := [''docktor/docktor-1700000000-raw.json'' \<mapsto> ''<html>502</html>'']\<rparr>)
   \<and> (\<exists>content.
         objects broken_world (''proj-docktor-builds'', ''docktor-1700000000'' @ ''/scan-results.json'')
           = Some content
         \<and> unmarshal_results example_env content = None
         \<and> files (broken_world\<lparr>dirs := {''docktor''},
              files := [''docktor/docktor-1700000000-raw.json'' \<mapsto> ''<html>502</html>'']\<rparr>)
             (''docktor/'' @ ''docktor-1700000000'' @ ''-raw.json'') = Some content)"
  using raw_bytes_persisted_before_parsing [OF broken_run] broken_run by blast


section \<open>Properties of the HTML report\<close>

lemma vulnsBySeverity_eq:
  "vulnsBySeverity vulns s =
     (if \<exists>v \<in> set vulns. gcp_Vulnerability.Severity v = s
      then Some (filter (\<lambda>v. gcp_Vulnerability.Severity v = s) vulns)
      else None)"
  by (simp add: vulnsBySeverity_def group_by_severity_empty)

lemma lower_names:
  "strings_ToLower ''CRITICAL'' = ''critical''"
  "strings_ToLower ''HIGH'' = ''high''"
  "strings_ToLower ''MEDIUM'' = ''medium''"
  "strings_ToLower ''LOW'' = ''low''"
  by code_simp+

lemma write_vulnerability_fun:
  "write_vulnerability severity =
     (\<lambda>vuln.
        [WriteVulnerabilityHead (strings_ToLower severity) (gcp_Vulnerability.Title vuln)
           (gcp_Vulnerability.PkgName vuln) (gcp_Vulnerability.InstalledVersion vuln)]
        @ (if gcp_Vulnerability.FixedVersion vuln \<noteq> []
           then [WriteFixedVersion (gcp_Vulnerability.FixedVersion vuln)] else [])
        @ [WriteVulnerabilityTail (gcp_Vulnerability.Description vuln)
             (gcp_Vulnerability.VulnerabilityID vuln)])"
  by (rule ext) (simp add: write_vulnerability_def)

lemma html_writes_eq:
  "html_writes buildID now (vulnsBySeverity vulns) =
     [WriteHeader buildID now]
     @ map (\<lambda>s. WriteSeverityCard (strings_ToLower s) s
                   (length (filter (\<lambda>v. gcp_Vulnerability.Severity v = s) vulns)))
         (filter (\<lambda>s. \<exists>v \<in> set vulns. gcp_Vulnerability.Severity v = s)
            [''CRITICAL'', ''HIGH'', ''MEDIUM'', ''LOW''])
     @ [WriteSummaryEnd]
     @ concat (map (\<lambda>s. concat (map (\<lambda>vuln.
           [WriteVulnerabilityHead (strings_ToLower s) (gcp_Vulnerability.Title vuln)
              (gcp_Vulnerability.PkgName vuln) (gcp_Vulnerability.InstalledVersion vuln)]
           @ (if gcp_Vulnerability.FixedVersion vuln \<noteq> []
              then [WriteFixedVersion (gcp_Vulnerability.FixedVersion vuln)] else [])
           @ [WriteVulnerabilityTail (gcp_Vulnerability.Description vuln)
                (gcp_Vulnerability.VulnerabilityID vuln)])
         (filter (\<lambda>v. gcp_Vulnerability.Severity v = s) vulns)))
       [''CRITICAL'', ''HIGH'', ''MEDIUM'', ''LOW''])
     @ [WriteFooter]"
  unfolding html_writes_def vulnsBySeverity_def write_summary_eq write_findings_eq
    html_severityOrder_def write_vulnerability_fun ..

lemma open_report_clock: "clock (open_report e p w) = clock w"
  by (simp add: open_report_def Let_def split: option.splits)

lemma write_report_html:
  "fst (write_report e buildID results w) = Inr scanResults \<Longrightarrow>
   files (snd (write_report e buildID results w)) (''docktor/'' @ buildID @ ''-report.html'')
     = Some (html_text (html_writes buildID (time_Format e (clock w))
               (vulnsBySeverity (ScanResults.Vulnerabilities scanResults))))"
  by (auto simp: write_report_def Let_def open_report_files filepath_Join_def split: if_splits)

lemma getScanResults_html:
  assumes "fst (getScanResults e bucketName buildID w) = Inr scanResults"
  shows "files (snd (getScanResults e bucketName buildID w)) (''docktor/'' @ buildID @ ''-report.html'')
     = Some (html_text (html_writes buildID (time_Format e (clock w))
               (vulnsBySeverity (ScanResults.Vulnerabilities scanResults))))"
proof -
  from assms obtain content where c: "objects w (bucketName, buildID @ ''/scan-results.json'') = Some content"
    by (auto simp: getScanResults_def split: option.splits)
  from assms c obtain results where r: "unmarshal_results e content = Some results"
    by (auto simp: getScanResults_def Let_def split: option.splits if_splits)
  from assms c have nofault: "\<not> attrs_err e" "\<not> new_reader_err e" "\<not> read_all_err e"
      "\<not> mkdir_all_err e" "\<not> write_file_err e"
    by (auto simp: getScanResults_def Let_def split: if_splits)
  let ?w2 = "w\<lparr>dirs := insert ''docktor'' (dirs w),
               files := (files w)(filepath_Join ''docktor'' (buildID @ ''-raw.json'') \<mapsto> content)\<rparr>"
  have eq: "getScanResults e bucketName buildID w = write_report e buildID results ?w2"
    using c r nofault by (simp add: getScanResults_def Let_def)
  from assms have "fst (write_report e buildID results ?w2) = Inr scanResults"
    by (simp add: eq)
  from write_report_html [OF this] show ?thesis
    by (simp add: eq)
qed

text \<open>
  C7 (amended). When \<open>getScanResults\<close> succeeds, the file
  \<open>docktor/{buildID}-report.html\<close> holds, in this order: the header; one summary card
  for each of CRITICAL, HIGH, MEDIUM, LOW that some vulnerability carries, each holding
  the number of vulnerabilities of that severity; the end of the summary; for the same
  four severities in the same order, one detail block for each vulnerability of that
  severity in report order; the footer. A detail block has a fixed-version line exactly
  when the fixed version is not empty. A vulnerability whose severity is none of the
  four (UNKNOWN among them) has no card and no detail block: leaving these entries out
  of the input gives the same document.
\<close>

theorem html_report_structure:
  \<open>(fst (getScanResults e bucketName buildID w) = Inr scanResults \<longrightarrow>
      files (snd (getScanResults e bucketName buildID w)) (''docktor/'' @ buildID @ ''-report.html'')
        = Some (concat (map render
           ([WriteHeader buildID (time_Format e (clock w))]
            @ map (\<lambda>s. WriteSeverityCard (strings_ToLower s) s
                     (length (filter (\<lambda>v. gcp_Vulnerability.Severity v = s)
                                (ScanResults.Vulnerabilities scanResults))))
                (filter (\<lambda>s. \<exists>v \<in> set (ScanResults.Vulnerabilities scanResults).
                                gcp_Vulnerability.Severity v = s)
                   [''CRITICAL'', ''HIGH'', ''MEDIUM'', ''LOW''])
            @ [WriteSummaryEnd]
            @ concat (map (\<lambda>s. concat (map (\<lambda>vuln.
                  [WriteVulnerabilityHead (strings_ToLower s) (gcp_Vulnerability.Title vuln)
                     (gcp_Vulnerability.PkgName vuln) (gcp_Vulnerability.InstalledVersion vuln)]
                  @ (if gcp_Vulnerability.FixedVersion vuln \<noteq> []
                     then [WriteFixedVersion (gcp_Vulnerability.FixedVersion vuln)] else [])
                  @ [WriteVulnerabilityTail (gcp_Vulnerability.Description vuln)
                       (gcp_Vulnerability.VulnerabilityID vuln)])
                (filter (\<lambda>v. gcp_Vulnerability.Severity v = s)
                   (ScanResults.Vulnerabilities scanResults))))
              [''CRITICAL'', ''HIGH'', ''MEDIUM'', ''LOW''])
            @ [WriteFooter]))))
   \<and> render (WriteSeverityCard cls severity n) =
        nl @ ''        <div class="severity-card '' @ cls @ ''">'' @ nl @
        ''            <h2>'' @ severity @ ''</h2>'' @ nl @
        ''            <p>'' @ decimal n @ '' vulnerabilities</p>'' @ nl @
        ''        </div>''
   \<and> render WriteSummaryEnd =
        nl @ ''    </div>'' @ nl @ nl @ ''    <div class="vulnerabilities">''
   \<and> render (WriteVulnerabilityHead cls title pkg installed) =
        nl @ ''        <div class="vulnerability '' @ cls @ ''">'' @ nl @
        ''            <h3>'' @ title @ ''</h3>'' @ nl @
        ''            <p><span class="label">Package:</span> '' @ pkg @ ''</p>'' @ nl @
        ''            <p><span class="label">Installed Version:</span> '' @ installed @ ''</p>''
   \<and> render (WriteFixedVersion fixed) =
        nl @ ''            <p><span class="label">Fixed Version:</span> '' @ fixed @ ''</p>''
   \<and> render (WriteVulnerabilityTail description vid) =
        nl @ ''            <p><span class="label">Description:</span> '' @ description @ ''</p>'' @ nl @
        ''            <p><span class="label">Vulnerability ID:</span> '' @ vid @ ''</p>'' @ nl @
        ''        </div>''
   \<and> render WriteFooter = nl @ ''    </div>'' @ nl @ ''</body>'' @ nl @ ''</html>''
   \<and> strings_ToLower ''CRITICAL'' = ''critical'' \<and> strings_ToLower ''HIGH'' = ''high''
   \<and> strings_ToLower ''MEDIUM'' = ''medium'' \<and> strings_ToLower ''LOW'' = ''low''
   \<and> write_summary html_severityOrder (vulnsBySeverity vulns) =
       map (\<lambda>s. WriteSeverityCard (strings_ToLower s) s
                   (length (filter (\<lambda>v. gcp_Vulnerability.Severity v = s) vulns)))
         (filter (\<lambda>s. \<exists>v \<in> set vulns. gcp_Vulnerability.Severity v = s)
            [''CRITICAL'', ''HIGH'', ''MEDIUM'', ''LOW''])
   \<and> write_findings html_severityOrder (vulnsBySeverity vulns) =
       concat (map (\<lambda>s. concat (map (write_vulnerability s)
                   (filter (\<lambda>v. gcp_Vulnerability.Severity v = s) vulns)))
          [''CRITICAL'', ''HIGH'', ''MEDIUM'', ''LOW''])
   \<and> ((\<exists>fixed. WriteFixedVersion fixed \<in> set (write_vulnerability s v))
         \<longleftrightarrow> gcp_Vulnerability.FixedVersion v \<noteq> [])
   \<and> html_writes buildID now (vulnsBySeverity
         (filter (\<lambda>v. gcp_Vulnerability.Severity v \<in> {''CRITICAL'', ''HIGH'', ''MEDIUM'', ''LOW''}) vulns))
       = html_writes buildID now (vulnsBySeverity vulns)\<close>
proof -
  have written: "fst (getScanResults e bucketName buildID w) = Inr scanResults \<longrightarrow>
      files (snd (getScanResults e bucketName buildID w)) (''docktor/'' @ buildID @ ''-report.html'')
        = Some (concat (map render
           ([WriteHeader buildID (time_Format e (clock w))]
            @ map (\<lambda>s. WriteSeverityCard (strings_ToLower s) s
                     (length (filter (\<lambda>v. gcp_Vulnerability.Severity v = s)
                                (ScanResults.Vulnerabilities scanResults))))
                (filter (\<lambda>s. \<exists>v \<in> set (ScanResults.Vulnerabilities scanResults).
                                gcp_Vulnerability.Severity v = s)
                   [''CRITICAL'', ''HIGH'', ''MEDIUM'', ''LOW''])
            @ [WriteSummaryEnd]
            @ concat (map (\<lambda>s. concat (map (\<lambda>vuln.
                  [WriteVulnerabilityHead (strings_ToLower s) (gcp_Vulnerability.Title vuln)
                     (gcp_Vulnerability.PkgName vuln) (gcp_Vulnerability.InstalledVersion vuln)]
                  @ (if gcp_Vulnerability.FixedVersion vuln \<noteq> []
                     then [WriteFixedVersion (gcp_Vulnerability.FixedVersion vuln)] else [])
                  @ [WriteVulnerabilityTail (gcp_Vulnerability.Description vuln)
                       (gcp_Vulnerability.VulnerabilityID vuln)])
                (filter (\<lambda>v. gcp_Vulnerability.Severity v = s)
                   (ScanResults.Vulnerabilities scanResults))))
              [''CRITICAL'', ''HIGH'', ''MEDIUM'', ''LOW''])
            @ [WriteFooter])))"
  proof
    assume "fst (getScanResults e bucketName buildID w) = Inr scanResults"
    from getScanResults_html [OF this] show "files (snd (getScanResults e bucketName buildID w))
        (''docktor/'' @ buildID @ ''-report.html'')
        = Some (concat (map render
           ([WriteHeader buildID (time_Format e (clock w))]
            @ map (\<lambda>s. WriteSeverityCard (strings_ToLower s) s
                     (length (filter (\<lambda>v. gcp_Vulnerability.Severity v = s)
                                (ScanResults.Vulnerabilities scanResults))))
                (filter (\<lambda>s. \<exists>v \<in> set (ScanResults.Vulnerabilities scanResults).
                                gcp_Vulnerability.Severity v = s)
                   [''CRITICAL'', ''HIGH'', ''MEDIUM'', ''LOW''])
            @ [WriteSummaryEnd]
            @ concat (map (\<lambda>s. concat (map (\<lambda>vuln.
                  [WriteVulnerabilityHead (strings_ToLower s) (gcp_Vulnerability.Title vuln)
                     (gcp_Vulnerability.PkgName vuln) (gcp_Vulnerability.InstalledVersion vuln)]
                  @ (if gcp_Vulnerability.FixedVersion vuln \<noteq> []
                     then [WriteFixedVersion (gcp_Vulnerability.FixedVersion vuln)] else [])
                  @ [WriteVulnerabilityTail (gcp_Vulnerability.Description vuln)
                       (gcp_Vulnerability.VulnerabilityID vuln)])
                (filter (\<lambda>v. gcp_Vulnerability.Severity v = s)
                   (ScanResults.Vulnerabilities scanResults))))
              [''CRITICAL'', ''HIGH'', ''MEDIUM'', ''LOW''])
            @ [WriteFooter])))"
      by (simp only: html_writes_eq html_text_def)
  qed
  have summary: "write_summary html_severityOrder (vulnsBySeverity vulns) =
       map (\<lambda>s. WriteSeverityCard (strings_ToLower s) s
                   (length (filter (\<lambda>v. gcp_Vulnerability.Severity v = s) vulns)))
         (filter (\<lambda>s. \<exists>v \<in> set vulns. gcp_Vulnerability.Severity v = s)
            [''CRITICAL'', ''HIGH'', ''MEDIUM'', ''LOW''])"
    unfolding vulnsBySeverity_def write_summary_eq html_severityOrder_def ..
  have findings: "write_findings html_severityOrder (vulnsBySeverity vulns) =
       concat (map (\<lambda>s. concat (map (write_vulnerability s)
                   (filter (\<lambda>v. gcp_Vulnerability.Severity v = s) vulns)))
          [''CRITICAL'', ''HIGH'', ''MEDIUM'', ''LOW''])"
    unfolding vulnsBySeverity_def write_findings_eq html_severityOrder_def ..
  have fixed: "(\<exists>fixed. WriteFixedVersion fixed \<in> set (write_vulnerability s v))
         \<longleftrightarrow> gcp_Vulnerability.FixedVersion v \<noteq> []"
    by (simp add: write_vulnerability_def)
  have "{''CRITICAL'', ''HIGH'', ''MEDIUM'', ''LOW''} = set html_severityOrder"
    by (simp add: html_severityOrder_def)
  then have other: "html_writes buildID now (vulnsBySeverity
         (filter (\<lambda>v. gcp_Vulnerability.Severity v \<in> {''CRITICAL'', ''HIGH'', ''MEDIUM'', ''LOW''}) vulns))
       = html_writes buildID now (vulnsBySeverity vulns)"
    by (simp only: vulnsBySeverity_def html_writes_ignore_other)
  show ?thesis
    using written summary findings fixed other lower_names
    by (simp only: render.simps simp_thms)
qed

theorem html_report_structure_witness:
  "fst (getScanResults example_env ''proj-docktor-builds'' ''docktor-1700000000'' example_world)
     = Inr \<lparr>ScanResults.Vulnerabilities =
         [\<lparr>gcp_Vulnerability.VulnerabilityID = ''A'', PkgName = [], InstalledVersion = [],
           FixedVersion = ''2.0'', Severity = ''CRITICAL'', Title = [], Description = []\<rparr>,
          \<lparr>gcp_Vulnerability.VulnerabilityID = ''B'', PkgName = [], InstalledVersion = [],
           FixedVersion = [], Severity = ''UNKNOWN'', Title = [], Description = []\<rparr>,
          \<lparr>gcp_Vulnerability.VulnerabilityID = ''C'', PkgName = [], InstalledVersion = [],
           FixedVersion = [], Severity = ''LOW'', Title = [], Description = []\<rparr>]\<rparr>
   \<and> files (snd (getScanResults example_env ''proj-docktor-builds'' ''docktor-1700000000''
                   example_world))
         ''docktor/docktor-1700000000-report.html''
       = Some (concat (map render
           [WriteHeader ''docktor-1700000000'' ''November 14, 2023 22:13:20'',
            WriteSeverityCard ''critical'' ''CRITICAL'' 1,
            WriteSeverityCard ''low'' ''LOW'' 1,
            WriteSummaryEnd,
            WriteVulnerabilityHead ''critical'' [] [] [],
            WriteFixedVersion ''2.0'',
            WriteVulnerabilityTail [] ''A'',
            WriteVulnerabilityHead ''low'' [] [] [],
            WriteVulnerabilityTail [] ''C'',
            WriteFooter]))"
proof -
  note inst = html_report_structure
    [where e = example_env and bucketName = "''proj-docktor-builds''"
       and buildID = "''docktor-1700000000''" and w = example_world
       and scanResults = "\<lparr>ScanResults.Vulnerabilities =
         [\<lparr>gcp_Vulnerability.VulnerabilityID = ''A'', PkgName = [], InstalledVersion = [],
           FixedVersion = ''2.0'', Severity = ''CRITICAL'', Title = [], Description = []\<rparr>,
          \<lparr>gcp_Vulnerability.VulnerabilityID = ''B'', PkgName = [], InstalledVersion = [],
           FixedVersion = [], Severity = ''UNKNOWN'', Title = [], Description = []\<rparr>,
          \<lparr>gcp_Vulnerability.VulnerabilityID = ''C'', PkgName = [], InstalledVersion = [],
           FixedVersion = [], Severity = ''LOW'', Title = [], Description = []\<rparr>]\<rparr>"]
  have now: "time_Format example_env (clock example_world) = ''November 14, 2023 22:13:20''"
    by (simp add: example_env_def fixed_format_def)
  from inst example_scan_run
  have "files (snd (getScanResults example_env ''proj-docktor-builds'' ''docktor-1700000000''
                   example_world))
         (''docktor/'' @ ''docktor-1700000000'' @ ''-report.html'')
       = Some (concat (map render
           [WriteHeader ''docktor-1700000000'' ''November 14, 2023 22:13:20'',
            WriteSeverityCard ''critical'' ''CRITICAL'' 1,
            WriteSeverityCard ''low'' ''LOW'' 1,
            WriteSummaryEnd,
            WriteVulnerabilityHead ''critical'' [] [] [],
            WriteFixedVersion ''2.0'',
            WriteVulnerabilityTail [] ''A'',
            WriteVulnerabilityHead ''low'' [] [] [],
            WriteVulnerabilityTail [] ''C'',
            WriteFooter]))"
    by (simp add: now lower_names del: render.simps)
  with example_scan_run show ?thesis by simp
qed

text \<open>
  C7 as stated fails: a report whose only entry has severity UNKNOWN is rendered as
  the header, the end of the summary and the footer, so the entry has no detail block.
\<close>

theorem html_unknown_counterexample:
  "html_writes ''docktor-1700000000'' ''November 14, 2023 22:13:20'' (vulnsBySeverity [unknown_vuln])
     = [WriteHeader ''docktor-1700000000'' ''November 14, 2023 22:13:20'', WriteSummaryEnd, WriteFooter]"
  by (simp add: html_writes_def vulnsBySeverity_def html_severityOrder_def unknown_vuln_def
      to_Vulnerability_def vuln_B_def slice_index_def)

end
